theory Spec2Isabelle
  imports Complex_Main
begin

section \<open>Data model (src/types.ts)\<close>

text \<open>
  JavaScript numbers are modelled as exact rationals (NaN and the infinities are
  outside the model), instants (ISO date strings in the source) as integer epoch
  milliseconds, optional fields as \<open>option\<close>.  Record fields carry a short
  prefix because several interfaces of the source share field names.  The purely
  descriptive ticket fields (roomNumber, asset, issueType, description, createdBy,
  assignedTo, notes, needsVendor, vendorType, verifiedBy, closedAt) and the part
  fields category, location and sku are never read by the functions below and
  are left out.
\<close>

datatype Role = MANAGEMENT | CLEANING | RECEPTION | MAINTENANCE

datatype Urgency = LOW | MEDIUM | HIGH

datatype Impact = NONE | ANNOYING | BLOCKING

datatype TicketStatus = OPEN | IN_PROGRESS | WAITING_PART | VENDOR | RESOLVED | VERIFIED

datatype PartMovementType =
  RESERVE | RELEASE | ISSUE | RECEIVE | ADJUST | PO_CREATED | PO_SENT | PO_RECEIVED

datatype POStatus = DRAFT | ORDERED | RECEIVED | CANCELED

text \<open>
  The texts the source builds with template strings (audit actions, movement notes,
  purchase order notes).  \<open>Text\<close> is a text supplied by the caller or found
  in stored data; the other constructors are the templates of src/AppContext.tsx with
  their interpolated values.
\<close>

datatype phrase =
    Text string
  | TicketCreado
  | ReservadaRefaccion string rat
  | ReservaLiberada
  | RefaccionUtilizada string rat
  | OCVinculada string
  | CambioDeRefaccion
  | ReservaParaTicket string
  | LiberacionDeReserva
  | SalidaAMantenimiento
  | OCCreada string
  | RecepcionOC string
  | OCMarcadaRecibida string
  | AjusteDeStock rat
  | OCGeneradaEnDemo

record AuditEvent =
  a_date :: int
  a_action :: phrase
  a_user :: Role

record InventoryPart =
  p_id :: string
  p_name :: string
  p_unit :: string
  stockOnHand :: rat
  stockReserved :: rat
  minStock :: rat
  preferredVendor :: "string option"
  leadTimeDays :: "int option"

record PartMovement =
  m_id :: string
  m_partId :: string
  m_type :: PartMovementType
  m_qty :: rat
  m_date :: int
  m_user :: Role
  m_note :: "phrase option"
  m_ticketId :: "string option"
  m_poId :: "string option"

record PurchaseOrderItem =
  it_partId :: string
  it_partName :: string
  it_qty :: rat
  it_unit :: "string option"

record PurchaseOrder =
  po_id :: string
  po_status :: POStatus
  po_createdAt :: int
  po_createdBy :: Role
  po_vendor :: string
  po_etaDate :: "int option"
  po_items :: "PurchaseOrderItem list"
  po_notes :: "phrase option"

record Ticket =
  t_id :: string
  isOccupied :: bool
  urgency :: Urgency
  impact :: Impact
  t_status :: TicketStatus
  t_createdAt :: int
  history :: "AuditEvent list"
  needsPart :: "bool option"
  t_partId :: "string option"
  t_partName :: "string option"
  t_partQty :: "rat option"
  t_poId :: "string option"
  priorityScore :: rat

text \<open>
  \<open>Partial<Ticket>\<close>: \<open>None\<close> is an absent key, \<open>Some v\<close> a key
  present with value \<open>v\<close> (for an optional field \<open>v\<close> may itself be
  \<open>None\<close>, the source's \<open>undefined\<close>).
\<close>

record TicketPatch =
  u_id :: "string option"
  u_isOccupied :: "bool option"
  u_urgency :: "Urgency option"
  u_impact :: "Impact option"
  u_status :: "TicketStatus option"
  u_createdAt :: "int option"
  u_history :: "AuditEvent list option"
  u_needsPart :: "bool option option"
  u_partId :: "string option option"
  u_partName :: "string option option"
  u_partQty :: "rat option option"
  u_poId :: "string option option"
  u_priorityScore :: "rat option"

definition noPatch :: TicketPatch where
  "noPatch = \<lparr>u_id = None, u_isOccupied = None, u_urgency = None, u_impact = None,
     u_status = None, u_createdAt = None, u_history = None, u_needsPart = None,
     u_partId = None, u_partName = None, u_partQty = None, u_poId = None,
     u_priorityScore = None\<rparr>"

text \<open>The store: the five pieces of React state of \<open>AppProvider\<close>.\<close>

record state =
  role :: Role
  tickets :: "Ticket list"
  parts :: "InventoryPart list"
  pos :: "PurchaseOrder list"
  movements :: "PartMovement list"

text \<open>The \<open>{ok, message, poId?}\<close> results, one constructor per message.\<close>

datatype message =
    PermisoInsuficienteReservar
  | PermisoInsuficienteLiberar
  | PermisoInsuficienteConsumir
  | SoloGerenciaGenerarOC
  | SoloGerenciaRecibirOC
  | SoloGerenciaAjustar
  | TicketNoEncontrado
  | RefaccionNoEncontrada
  | StockInsuficiente rat rat
  | SinRefaccionReservada
  | SinRefaccionVinculada
  | OCNoEncontrada
  | OCYaRecibida
  | DeltaInvalido
  | RefaccionReservada
  | ReservaLiberadaOk
  | RefaccionConsumida
  | OCGenerada string
  | OCRecibida string
  | StockAjustado

record result =
  ok :: bool
  message :: message
  r_poId :: "string option"

definition failure :: "message \<Rightarrow> result" where
  "failure msg = \<lparr>ok = False, message = msg, r_poId = None\<rparr>"

definition success :: "message \<Rightarrow> result" where
  "success msg = \<lparr>ok = True, message = msg, r_poId = None\<rparr>"

text \<open>
  The one exception a command can throw: \<open>Date.prototype.toISOString\<close> raises
  \<open>RangeError\<close> on a date that holds no valid time value.
\<close>

datatype exception = RangeError

section \<open>JavaScript helpers\<close>

definition Math_floor :: "rat \<Rightarrow> rat" where
  "Math_floor x = of_int \<lfloor>x\<rfloor>"

definition Math_trunc :: "rat \<Rightarrow> rat" where
  "Math_trunc x = (if 0 \<le> x then of_int \<lfloor>x\<rfloor> else of_int \<lceil>x\<rceil>)"

definition Math_round :: "rat \<Rightarrow> rat" where
  \<comment> \<open>nearest integer, ties towards plus infinity\<close>
  "Math_round x = of_int \<lfloor>x + 1 / 2\<rfloor>"

definition validTime :: "int \<Rightarrow> bool" where
  \<comment> \<open>the time values a \<open>Date\<close> can hold: at most 8.64e15 ms from the epoch\<close>
  "validTime t = (\<bar>t\<bar> \<le> 8640000000000000)"

definition numOr :: "rat \<Rightarrow> rat \<Rightarrow> rat" where
  \<comment> \<open>\<open>x || d\<close> on numbers: zero is falsy\<close>
  "numOr x d = (if x = 0 then d else x)"

definition truthyNum :: "rat option \<Rightarrow> bool" where
  "truthyNum x = (case x of None \<Rightarrow> False | Some v \<Rightarrow> v \<noteq> 0)"

definition truthyStr :: "string option \<Rightarrow> bool" where
  "truthyStr x = (case x of None \<Rightarrow> False | Some v \<Rightarrow> v \<noteq> [])"

definition textOr :: "string option \<Rightarrow> phrase \<Rightarrow> phrase" where
  \<comment> \<open>\<open>note || default\<close>\<close>
  "textOr n d = (case n of None \<Rightarrow> d | Some v \<Rightarrow> if v = [] then d else Text v)"

definition isDigit :: "char \<Rightarrow> bool" where
  "isDigit c = (c \<in> set ''0123456789'')"

definition digitVal :: "char \<Rightarrow> nat" where
  "digitVal c = of_char c - 48"

definition parseDigits :: "string \<Rightarrow> nat option" where
  \<comment> \<open>\<open>parseInt(ds, 10)\<close> on a string of digits; \<open>None\<close> is NaN\<close>
  "parseDigits ds =
     (if ds = [] then None else Some (foldl (\<lambda>a c. 10 * a + digitVal c) 0 ds))"

fun showNat :: "nat \<Rightarrow> string" where
  "showNat n =
     (if n < 10 then [char_of (48 + n)]
      else showNat (n div 10) @ [char_of (48 + n mod 10)])"

declare showNat.simps [simp del]

section \<open>Helpers of src/AppContext.tsx and src/utils.ts\<close>

definition nextId :: "string \<Rightarrow> string list \<Rightarrow> nat \<Rightarrow> string" where
  "nextId prefix existingIds start =
     (let mx = foldl (\<lambda>m i. case parseDigits (filter isDigit i) of
                               Some n \<Rightarrow> max m n | None \<Rightarrow> m) start existingIds
      in prefix @ showNat (mx + 1))"

definition nextTicketId :: "Ticket list \<Rightarrow> string" where
  "nextTicketId ts = nextId ''T-'' (map t_id ts) 1000"

definition nextMovementId :: "PartMovement list \<Rightarrow> string" where
  "nextMovementId movs = nextId ''M-'' (map m_id movs) 0"

definition nextPOId :: "PurchaseOrder list \<Rightarrow> string" where
  "nextPOId ps = nextId ''OC-'' (map po_id ps) 0"

definition createAudit :: "int \<Rightarrow> Role \<Rightarrow> phrase \<Rightarrow> AuditEvent" where
  "createAudit now usr act = \<lparr>a_date = now, a_action = act, a_user = usr\<rparr>"

definition clampNonNeg :: "rat \<Rightarrow> rat" where
  "clampNonNeg n = max 0 n"

definition getAvailableStock :: "InventoryPart \<Rightarrow> rat" where
  "getAvailableStock part = clampNonNeg (stockOnHand part - stockReserved part)"

definition calculatePriority :: "int \<Rightarrow> Ticket \<Rightarrow> rat" where
  "calculatePriority now ticket =
     (if t_status ticket = RESOLVED \<or> t_status ticket = VERIFIED then 0
      else
        let score = 0;
            score = (if urgency ticket = HIGH then score + 50 else score);
            score = (if urgency ticket = MEDIUM then score + 30 else score);
            score = (if urgency ticket = LOW then score + 10 else score);
            score = (if impact ticket = BLOCKING then score + 40 else score);
            score = (if impact ticket = ANNOYING then score + 20 else score);
            score = (if isOccupied ticket then score + 30 else score);
            daysOpen = (of_int now - of_int (t_createdAt ticket)) / (1000 * 3600 * 24);
            score = score + min (daysOpen * 5) 30
        in Math_round score)"

definition canReserve :: "Role \<Rightarrow> bool" where
  "canReserve r = (r = MANAGEMENT \<or> r = MAINTENANCE)"

definition canCreatePO :: "Role \<Rightarrow> bool" where
  "canCreatePO r = (r = MANAGEMENT)"

definition canAdjustStock :: "Role \<Rightarrow> bool" where
  "canAdjustStock r = (r = MANAGEMENT)"

section \<open>Tickets\<close>

definition applyPatch :: "Ticket \<Rightarrow> TicketPatch \<Rightarrow> Ticket" where
  \<comment> \<open>\<open>{ ...t, ...updates }\<close>\<close>
  "applyPatch t u =
     \<lparr>t_id = (case u_id u of None \<Rightarrow> t_id t | Some v \<Rightarrow> v),
      isOccupied = (case u_isOccupied u of None \<Rightarrow> isOccupied t | Some v \<Rightarrow> v),
      urgency = (case u_urgency u of None \<Rightarrow> urgency t | Some v \<Rightarrow> v),
      impact = (case u_impact u of None \<Rightarrow> impact t | Some v \<Rightarrow> v),
      t_status = (case u_status u of None \<Rightarrow> t_status t | Some v \<Rightarrow> v),
      t_createdAt = (case u_createdAt u of None \<Rightarrow> t_createdAt t | Some v \<Rightarrow> v),
      history = (case u_history u of None \<Rightarrow> history t | Some v \<Rightarrow> v),
      needsPart = (case u_needsPart u of None \<Rightarrow> needsPart t | Some v \<Rightarrow> v),
      t_partId = (case u_partId u of None \<Rightarrow> t_partId t | Some v \<Rightarrow> v),
      t_partName = (case u_partName u of None \<Rightarrow> t_partName t | Some v \<Rightarrow> v),
      t_partQty = (case u_partQty u of None \<Rightarrow> t_partQty t | Some v \<Rightarrow> v),
      t_poId = (case u_poId u of None \<Rightarrow> t_poId t | Some v \<Rightarrow> v),
      priorityScore = (case u_priorityScore u of None \<Rightarrow> priorityScore t | Some v \<Rightarrow> v)\<rparr>"

definition updateOne :: "int \<Rightarrow> Role \<Rightarrow> TicketPatch \<Rightarrow> phrase \<Rightarrow> Ticket \<Rightarrow> Ticket" where
  "updateOne now usr updates actionDescription t =
     (let updated = applyPatch t updates;
          updated = updated\<lparr>history := history updated @ [createAudit now usr actionDescription]\<rparr>
      in updated\<lparr>priorityScore := calculatePriority now updated\<rparr>)"

definition updateTicket :: "int \<Rightarrow> string \<Rightarrow> TicketPatch \<Rightarrow> phrase \<Rightarrow> state \<Rightarrow> state" where
  "updateTicket now tid updates actionDescription s =
     s\<lparr>tickets := map (\<lambda>t. if t_id t \<noteq> tid then t
                            else updateOne now (role s) updates actionDescription t)
                     (tickets s)\<rparr>"

section \<open>Inventory\<close>

definition addMovement ::
  "int \<Rightarrow> string \<Rightarrow> PartMovementType \<Rightarrow> rat \<Rightarrow> phrase \<Rightarrow> string option \<Rightarrow> string option
     \<Rightarrow> state \<Rightarrow> state" where
  "addMovement now partId ty qty note ticketId poId s =
     s\<lparr>movements :=
          \<lparr>m_id = nextMovementId (movements s), m_partId = partId, m_type = ty,
           m_qty = qty, m_date = now, m_user = role s, m_note = Some note,
           m_ticketId = ticketId, m_poId = poId\<rparr> # movements s\<rparr>"

definition normQty :: "rat \<Rightarrow> rat" where
  \<comment> \<open>\<open>Math.max(1, Math.floor(qty || 1))\<close>\<close>
  "normQty qty = max 1 (Math_floor (numOr qty 1))"

definition releaseParts :: "Ticket \<Rightarrow> InventoryPart list \<Rightarrow> InventoryPart list" where
  \<comment> \<open>the updater shared by the two release sites\<close>
  "releaseParts ticket prev =
     map (\<lambda>p. if Some (p_id p) \<noteq> t_partId ticket then p
               else p\<lparr>stockReserved := clampNonNeg (stockReserved p - the (t_partQty ticket))\<rparr>)
         prev"

definition reservePartForTicket ::
  "int \<Rightarrow> string \<Rightarrow> string \<Rightarrow> rat \<Rightarrow> state \<Rightarrow> result \<times> state" where
  "reservePartForTicket now ticketId partId qty s =
     (if \<not> canReserve (role s) then (failure PermisoInsuficienteReservar, s)
      else
        let q = normQty qty in
        case find (\<lambda>t. t_id t = ticketId) (tickets s) of
          None \<Rightarrow> (failure TicketNoEncontrado, s)
        | Some ticket \<Rightarrow>
            (case find (\<lambda>p. p_id p = partId) (parts s) of
               None \<Rightarrow> (failure RefaccionNoEncontrada, s)
             | Some part \<Rightarrow>
                 let available = clampNonNeg (stockOnHand part - stockReserved part) in
                 if available < q then (failure (StockInsuficiente available q), s)
                 else
                   let s1 =
                         (if truthyStr (t_partId ticket) \<and> truthyNum (t_partQty ticket)
                             \<and> the (t_partQty ticket) > 0
                          then addMovement now (the (t_partId ticket)) RELEASE
                                 (the (t_partQty ticket)) CambioDeRefaccion (Some ticketId) None
                                 (s\<lparr>parts := releaseParts ticket (parts s)\<rparr>)
                          else s);
                       s2 = s1\<lparr>parts := map (\<lambda>p. if p_id p = partId
                                                  then p\<lparr>stockReserved := stockReserved p + q\<rparr>
                                                  else p) (parts s1)\<rparr>;
                       s3 = updateTicket now ticketId
                              (noPatch\<lparr>u_needsPart := Some (Some True),
                                       u_status := Some WAITING_PART,
                                       u_partId := Some (Some partId),
                                       u_partName := Some (Some (p_name part)),
                                       u_partQty := Some (Some q)\<rparr>)
                              (ReservadaRefaccion (p_name part) q) s2;
                       s4 = addMovement now partId RESERVE q (ReservaParaTicket ticketId)
                              (Some ticketId) None s3
                   in (success RefaccionReservada, s4)))"

definition releaseReservationForTicket ::
  "int \<Rightarrow> string \<Rightarrow> string option \<Rightarrow> state \<Rightarrow> result \<times> state" where
  "releaseReservationForTicket now ticketId note s =
     (if \<not> canReserve (role s) then (failure PermisoInsuficienteLiberar, s)
      else
        case find (\<lambda>t. t_id t = ticketId) (tickets s) of
          None \<Rightarrow> (failure TicketNoEncontrado, s)
        | Some ticket \<Rightarrow>
            if \<not> truthyStr (t_partId ticket) \<or> \<not> truthyNum (t_partQty ticket)
            then (failure SinRefaccionReservada, s)
            else
              let s1 = s\<lparr>parts := releaseParts ticket (parts s)\<rparr>;
                  s2 = addMovement now (the (t_partId ticket)) RELEASE (the (t_partQty ticket))
                         (textOr note LiberacionDeReserva) (Some ticketId) None s1;
                  s3 = updateTicket now ticketId (noPatch\<lparr>u_needsPart := Some (Some False)\<rparr>)
                         ReservaLiberada s2
              in (success ReservaLiberadaOk, s3))"

definition issueReservedPartForTicket ::
  "int \<Rightarrow> string \<Rightarrow> string option \<Rightarrow> state \<Rightarrow> result \<times> state" where
  "issueReservedPartForTicket now ticketId note s =
     (if \<not> canReserve (role s) then (failure PermisoInsuficienteConsumir, s)
      else
        case find (\<lambda>t. t_id t = ticketId) (tickets s) of
          None \<Rightarrow> (failure TicketNoEncontrado, s)
        | Some ticket \<Rightarrow>
            if \<not> truthyStr (t_partId ticket) \<or> \<not> truthyNum (t_partQty ticket)
            then (failure SinRefaccionVinculada, s)
            else
              (case find (\<lambda>p. Some (p_id p) = t_partId ticket) (parts s) of
                 None \<Rightarrow> (failure RefaccionNoEncontrada, s)
               | Some part \<Rightarrow>
                   let q = max 1 (Math_floor (numOr (the (t_partQty ticket)) 1));
                       s1 = s\<lparr>parts :=
                                map (\<lambda>p. if Some (p_id p) \<noteq> t_partId ticket then p
                                          else p\<lparr>stockReserved := clampNonNeg (stockReserved p - q),
                                                 stockOnHand := clampNonNeg (stockOnHand p - q)\<rparr>)
                                    (parts s)\<rparr>;
                       s2 = addMovement now (the (t_partId ticket)) ISSUE q
                              (textOr note SalidaAMantenimiento) (Some ticketId) None s1;
                       s3 = updateTicket now ticketId (noPatch\<lparr>u_needsPart := Some (Some False)\<rparr>)
                              (RefaccionUtilizada (p_name part) q) s2
                   in (success RefaccionConsumida, s3)))"

record CreatePOParams =
  c_partId :: string
  c_qty :: rat
  c_vendor :: "string option"
  c_etaDays :: "int option"
  c_ticketId :: "string option"

record AdjustParams =
  j_partId :: string
  j_delta :: rat
  j_note :: "string option"

definition createPOForPart ::
  "int \<Rightarrow> CreatePOParams \<Rightarrow> state \<Rightarrow> exception + result \<times> state" where
  \<comment> \<open>\<open>eta\<close> is \<open>now\<close> moved by whole days (daylight-saving shifts of the
      local calendar are not modelled).  \<open>eta.toISOString()\<close> throws when the moved
      date is no valid time value; that happens while the order object is built, before
      any state updater is queued.  The clock reading \<open>now\<close> is always valid.
      Day counts are whole numbers (\<open>setDate\<close> truncates its argument); a NaN day
      count, which throws as well, is outside the model.\<close>
  "createPOForPart now params s =
     (if \<not> canCreatePO (role s) then Inr (failure SoloGerenciaGenerarOC, s)
      else
        case find (\<lambda>p. p_id p = c_partId params) (parts s) of
          None \<Rightarrow> Inr (failure RefaccionNoEncontrada, s)
        | Some part \<Rightarrow>
            let q = max 1 (Math_floor (numOr (c_qty params) 1));
                vendor = (if truthyStr (c_vendor params) then the (c_vendor params)
                          else if truthyStr (preferredVendor part) then the (preferredVendor part)
                          else ''Proveedor (DEMO)'');
                days = (case c_etaDays params of Some d \<Rightarrow> d
                        | None \<Rightarrow> (case leadTimeDays part of Some d \<Rightarrow> d | None \<Rightarrow> 3));
                eta = now + days * 86400000
            in
            if \<not> validTime eta then Inl RangeError
            else
              let newPO = \<lparr>po_id = nextPOId (pos s), po_status = ORDERED, po_createdAt = now,
                           po_createdBy = role s, po_vendor = vendor, po_etaDate = Some eta,
                           po_items = [\<lparr>it_partId = p_id part, it_partName = p_name part,
                                        it_qty = q, it_unit = Some (p_unit part)\<rparr>],
                           po_notes = Some OCGeneradaEnDemo\<rparr>;
                  s1 = s\<lparr>pos := newPO # pos s\<rparr>;
                  s2 = addMovement now (p_id part) PO_CREATED q (OCCreada (po_id newPO))
                         (c_ticketId params) (Some (po_id newPO)) s1;
                  s3 = (if truthyStr (c_ticketId params)
                        then updateTicket now (the (c_ticketId params))
                               (noPatch\<lparr>u_poId := Some (Some (po_id newPO))\<rparr>)
                               (OCVinculada (po_id newPO)) s2
                        else s2)
              in Inr (\<lparr>ok = True, message = OCGenerada (po_id newPO),
                        r_poId = Some (po_id newPO)\<rparr>, s3))"

definition creditParts :: "PurchaseOrder \<Rightarrow> InventoryPart list \<Rightarrow> InventoryPart list" where
  \<comment> \<open>the \<open>setParts\<close> updater of \<open>receivePO\<close>\<close>
  "creditParts po prev =
     map (\<lambda>p. case find (\<lambda>i. it_partId i = p_id p) (po_items po) of
                 None \<Rightarrow> p
               | Some item \<Rightarrow> p\<lparr>stockOnHand := stockOnHand p + it_qty item\<rparr>) prev"

definition receivePO :: "int \<Rightarrow> string \<Rightarrow> state \<Rightarrow> result \<times> state" where
  "receivePO now poId s =
     (if \<not> canCreatePO (role s) then (failure SoloGerenciaRecibirOC, s)
      else
        case find (\<lambda>p. po_id p = poId) (pos s) of
          None \<Rightarrow> (failure OCNoEncontrada, s)
        | Some po \<Rightarrow>
            if po_status po = RECEIVED then (failure OCYaRecibida, s)
            else
              let s1 = s\<lparr>parts := creditParts po (parts s)\<rparr>;
                  s2 = fold (\<lambda>item. addMovement now (it_partId item) RECEIVE (it_qty item)
                                      (RecepcionOC (po_id po)) None (Some (po_id po)))
                         (po_items po) s1;
                  s3 = s2\<lparr>pos := map (\<lambda>p. if po_id p = poId then p\<lparr>po_status := RECEIVED\<rparr> else p)
                                    (pos s2)\<rparr>;
                  s4 = addMovement now
                         (case po_items po of
                            [] \<Rightarrow> ''P-000''
                          | i # _ \<Rightarrow> if it_partId i = [] then ''P-000'' else it_partId i)
                         PO_RECEIVED (foldl (\<lambda>a i. a + it_qty i) 0 (po_items po))
                         (OCMarcadaRecibida (po_id po)) None (Some (po_id po)) s3
              in (success (OCRecibida (po_id po)), s4))"

definition adjustStock :: "int \<Rightarrow> AdjustParams \<Rightarrow> state \<Rightarrow> result \<times> state" where
  "adjustStock now params s =
     (if \<not> canAdjustStock (role s) then (failure SoloGerenciaAjustar, s)
      else
        case find (\<lambda>p. p_id p = j_partId params) (parts s) of
          None \<Rightarrow> (failure RefaccionNoEncontrada, s)
        | Some part \<Rightarrow>
            let delta = Math_trunc (numOr (j_delta params) 0) in
            if delta = 0 then (failure DeltaInvalido, s)
            else
              let s1 = s\<lparr>parts := map (\<lambda>p. if p_id p \<noteq> j_partId params then p
                                            else p\<lparr>stockOnHand := clampNonNeg (stockOnHand p + delta)\<rparr>)
                                      (parts s)\<rparr>;
                  s2 = addMovement now (j_partId params) ADJUST \<bar>delta\<bar>
                         (textOr (j_note params) (AjusteDeStock delta)) None None s1
              in (success StockAjustado, s2))"

section \<open>The command interface\<close>

text \<open>
  Each command reads the state of the last render and queues functional updaters, which
  React applies in order; with one command per render that is the sequential composition
  written above.  The clock is read once per command (\<open>now\<close>).  A command either
  returns its result record together with the store its updaters produce (\<open>Inr\<close>)
  or throws (\<open>Inl\<close>); only \<open>createPOForPart\<close> contains an operation that
  can throw.
\<close>

datatype command =
    Reserve string string rat
  | Release string "string option"
  | Issue string "string option"
  | CreatePO CreatePOParams
  | ReceivePO string
  | AdjustStock AdjustParams

fun exec :: "int \<Rightarrow> command \<Rightarrow> state \<Rightarrow> exception + result \<times> state" where
  "exec now (Reserve ticketId partId qty) s = Inr (reservePartForTicket now ticketId partId qty s)"
| "exec now (Release ticketId note) s = Inr (releaseReservationForTicket now ticketId note s)"
| "exec now (Issue ticketId note) s = Inr (issueReservedPartForTicket now ticketId note s)"
| "exec now (CreatePO params) s = createPOForPart now params s"
| "exec now (ReceivePO poId) s = Inr (receivePO now poId s)"
| "exec now (AdjustStock params) s = Inr (adjustStock now params s)"

definition stateAfter :: "int \<Rightarrow> command \<Rightarrow> state \<Rightarrow> state" where
  \<comment> \<open>the store after the command; a throw comes before any updater, so it leaves the store\<close>
  "stateAfter now c s = (case exec now c s of Inl e \<Rightarrow> s | Inr rs \<Rightarrow> snd rs)"

text \<open>
  What a user of the store can do between two renders: one of the six commands, the
  public \<open>updateTicket\<close>, or a change of role.  Each event carries the instant at
  which it happens.
\<close>

datatype event =
    Command command
  | UpdateTicket string TicketPatch phrase
  | SetRole Role

fun applyEvent :: "int \<times> event \<Rightarrow> state \<Rightarrow> state" where
  "applyEvent (now, Command c) s = stateAfter now c s"
| "applyEvent (now, UpdateTicket tid updates actionDescription) s =
     updateTicket now tid updates actionDescription s"
| "applyEvent (now, SetRole r) s = s\<lparr>role := r\<rparr>"

definition run :: "(int \<times> event) list \<Rightarrow> state \<Rightarrow> state" where
  "run evs s = fold applyEvent evs s"

section \<open>Definitions used to state the properties\<close>

subsection \<open>The priority formula, in the words of the specification\<close>

definition urgencyPoints :: "Urgency \<Rightarrow> rat" where
  "urgencyPoints u = (case u of HIGH \<Rightarrow> 50 | MEDIUM \<Rightarrow> 30 | LOW \<Rightarrow> 10)"

definition impactPoints :: "Impact \<Rightarrow> rat" where
  "impactPoints i = (case i of BLOCKING \<Rightarrow> 40 | ANNOYING \<Rightarrow> 20 | NONE \<Rightarrow> 0)"

definition priorityFormula ::
  "int \<Rightarrow> TicketStatus \<Rightarrow> Urgency \<Rightarrow> Impact \<Rightarrow> bool \<Rightarrow> int \<Rightarrow> rat" where
  "priorityFormula now st u i occ created =
     (if st = RESOLVED \<or> st = VERIFIED then 0
      else Math_round (urgencyPoints u + impactPoints i + (if occ then 30 else 0)
             + min ((of_int (now - created) / 86400000) * 5) 30))"

subsection \<open>Views of the ledger\<close>

definition movementKey :: "PartMovement \<Rightarrow> PartMovementType \<times> string \<times> rat" where
  "movementKey m = (m_type m, m_partId m, m_qty m)"

definition summaryPartId :: "PurchaseOrder \<Rightarrow> string" where
  \<comment> \<open>\<open>po.items[0]?.partId || 'P-000'\<close>\<close>
  "summaryPartId po =
     (case po_items po of [] \<Rightarrow> ''P-000''
      | i # _ \<Rightarrow> if it_partId i = [] then ''P-000'' else it_partId i)"

subsection \<open>Names for conditions and values of \<open>reservePartForTicket\<close>\<close>

definition holdsReservation :: "Ticket \<Rightarrow> bool" where
  "holdsReservation ticket =
     (truthyStr (t_partId ticket) \<and> truthyNum (t_partQty ticket) \<and> the (t_partQty ticket) > 0)"

definition reservePatch :: "string \<Rightarrow> InventoryPart \<Rightarrow> rat \<Rightarrow> TicketPatch" where
  "reservePatch partId part q =
     noPatch\<lparr>u_needsPart := Some (Some True), u_status := Some WAITING_PART,
       u_partId := Some (Some partId), u_partName := Some (Some (p_name part)),
       u_partQty := Some (Some q)\<rparr>"

subsection \<open>Names for values of \<open>issueReservedPartForTicket\<close>\<close>

definition issueQty :: "Ticket \<Rightarrow> rat" where
  "issueQty ticket = max 1 (Math_floor (numOr (the (t_partQty ticket)) 1))"

definition issueParts :: "Ticket \<Rightarrow> InventoryPart list \<Rightarrow> InventoryPart list" where
  "issueParts ticket prev =
     map (\<lambda>p. if Some (p_id p) \<noteq> t_partId ticket then p
               else p\<lparr>stockReserved := clampNonNeg (stockReserved p - issueQty ticket),
                      stockOnHand := clampNonNeg (stockOnHand p - issueQty ticket)\<rparr>) prev"

subsection \<open>Names for values of the purchase order and adjustment commands\<close>

definition createQty :: "CreatePOParams \<Rightarrow> rat" where
  "createQty params = max 1 (Math_floor (numOr (c_qty params) 1))"

definition poEta :: "int \<Rightarrow> CreatePOParams \<Rightarrow> InventoryPart \<Rightarrow> int" where
  "poEta now params part =
     now + (case c_etaDays params of Some d \<Rightarrow> d
            | None \<Rightarrow> (case leadTimeDays part of Some d \<Rightarrow> d | None \<Rightarrow> 3)) * 86400000"

definition afterCreatePO :: "int \<Rightarrow> CreatePOParams \<Rightarrow> state \<Rightarrow> state" where
  "afterCreatePO now params s =
     (case createPOForPart now params s of Inl e \<Rightarrow> s | Inr rs \<Rightarrow> snd rs)"

definition adjustDelta :: "AdjustParams \<Rightarrow> rat" where
  "adjustDelta params = Math_trunc (numOr (j_delta params) 0)"

subsection \<open>The stock invariant\<close>

definition stockOk :: "InventoryPart \<Rightarrow> bool" where
  "stockOk p = (0 \<le> stockOnHand p \<and> 0 \<le> stockReserved p)"

definition partsNonneg :: "state \<Rightarrow> bool" where
  "partsNonneg s = list_all stockOk (parts s)"

definition poItemsNonneg :: "state \<Rightarrow> bool" where
  "poItemsNonneg s = list_all (\<lambda>po. list_all (\<lambda>i. 0 \<le> it_qty i) (po_items po)) (pos s)"

subsection \<open>Ticket status over a run\<close>

definition statusOf :: "string \<Rightarrow> Ticket list \<Rightarrow> TicketStatus list" where
  "statusOf tid ts = map t_status (filter (\<lambda>t. t_id t = tid) ts)"

fun rewritesStatus :: "string \<Rightarrow> event \<Rightarrow> bool" where
  "rewritesStatus tid (Command (Reserve ticketId partId qty)) = (ticketId = tid)"
| "rewritesStatus tid (UpdateTicket ticketId updates actionDescription) =
     (u_id updates \<noteq> None \<or> (ticketId = tid \<and> u_status updates \<noteq> None))"
| "rewritesStatus tid e = False"

definition keeps :: "string \<Rightarrow> Ticket \<Rightarrow> Ticket \<Rightarrow> bool" where
  "keeps tid t t' = (t_id t' = t_id t \<and> (t_id t = tid \<longrightarrow> t_status t' = t_status t))"

subsection \<open>Replaying the ledger\<close>

text \<open>
  The replay that the specification's ledger invariant speaks of (the repository has no
  replay function): each movement of the part contributes its quantity with the sign
  implied by its type.  The type ADJUST implies no sign of its own, so the sign it is
  given is a parameter.  The ledger is kept newest first, so \<open>foldr\<close> applies the
  movements oldest first, the order of their timestamps.
\<close>

definition signedEffect :: "rat \<Rightarrow> PartMovementType \<Rightarrow> rat \<Rightarrow> rat \<times> rat" where
  "signedEffect adjustSign ty q =
     (case ty of
        RESERVE \<Rightarrow> (0, q)
      | RELEASE \<Rightarrow> (0, - q)
      | ISSUE \<Rightarrow> (- q, - q)
      | RECEIVE \<Rightarrow> (q, 0)
      | ADJUST \<Rightarrow> (adjustSign * q, 0)
      | PO_CREATED \<Rightarrow> (0, 0)
      | PO_SENT \<Rightarrow> (0, 0)
      | PO_RECEIVED \<Rightarrow> (0, 0))"

definition replaySigned :: "rat \<Rightarrow> PartMovement list \<Rightarrow> string \<Rightarrow> rat \<times> rat \<Rightarrow> rat \<times> rat" where
  "replaySigned adjustSign ms pid start =
     foldr (\<lambda>m acc. if m_partId m = pid
                     then (fst acc + fst (signedEffect adjustSign (m_type m) (m_qty m)),
                           snd acc + snd (signedEffect adjustSign (m_type m) (m_qty m)))
                     else acc) ms start"

definition stockOf :: "InventoryPart \<Rightarrow> rat \<times> rat" where
  "stockOf p = (stockOnHand p, stockReserved p)"

text \<open>
  The replay that the code supports: it starts from the part as it was, clamps where the
  commands clamp, and reads ADJUST as an addition.
\<close>

fun applyKey :: "PartMovementType \<times> string \<times> rat \<Rightarrow> InventoryPart \<Rightarrow> InventoryPart" where
  "applyKey (ty, pid, q) p =
     (if pid \<noteq> p_id p then p
      else case ty of
          RESERVE \<Rightarrow> p\<lparr>stockReserved := stockReserved p + q\<rparr>
        | RELEASE \<Rightarrow> p\<lparr>stockReserved := clampNonNeg (stockReserved p - q)\<rparr>
        | ISSUE \<Rightarrow> p\<lparr>stockReserved := clampNonNeg (stockReserved p - q),
                       stockOnHand := clampNonNeg (stockOnHand p - q)\<rparr>
        | RECEIVE \<Rightarrow> p\<lparr>stockOnHand := stockOnHand p + q\<rparr>
        | ADJUST \<Rightarrow> p\<lparr>stockOnHand := clampNonNeg (stockOnHand p + q)\<rparr>
        | PO_CREATED \<Rightarrow> p
        | PO_SENT \<Rightarrow> p
        | PO_RECEIVED \<Rightarrow> p)"

definition replayClamped :: "PartMovement list \<Rightarrow> InventoryPart \<Rightarrow> InventoryPart" where
  "replayClamped ms p = foldr applyKey (map movementKey ms) p"

definition newMovements :: "state \<Rightarrow> state \<Rightarrow> PartMovement list" where
  "newMovements s s' = take (length (movements s') - length (movements s)) (movements s')"

definition poItemsDistinct :: "state \<Rightarrow> bool" where
  "poItemsDistinct s = list_all (\<lambda>po. distinct (map it_partId (po_items po))) (pos s)"

fun lowersStock :: "event \<Rightarrow> bool" where
  "lowersStock (Command (AdjustStock params)) = (adjustDelta params < 0)"
| "lowersStock e = False"

subsection \<open>Sample stores and runs\<close>

definition sampleTicket :: "string \<Rightarrow> Ticket" where
  "sampleTicket tid =
     \<lparr>t_id = tid, isOccupied = True, urgency = HIGH, impact = ANNOYING, t_status = OPEN,
      t_createdAt = 0, history = [], needsPart = None, t_partId = None, t_partName = None,
      t_partQty = None, t_poId = None, priorityScore = 100\<rparr>"

definition samplePart :: "string \<Rightarrow> rat \<Rightarrow> rat \<Rightarrow> InventoryPart" where
  "samplePart pid onHand reserved =
     \<lparr>p_id = pid, p_name = ''Filtro'', p_unit = ''pza'', stockOnHand = onHand,
      stockReserved = reserved, minStock = 1, preferredVendor = None, leadTimeDays = None\<rparr>"

definition samplePO :: "string \<Rightarrow> POStatus \<Rightarrow> string \<Rightarrow> rat \<Rightarrow> PurchaseOrder" where
  "samplePO oc st pid qty =
     \<lparr>po_id = oc, po_status = st, po_createdAt = 0, po_createdBy = MANAGEMENT,
      po_vendor = ''Proveedor (DEMO)'', po_etaDate = None,
      po_items = [\<lparr>it_partId = pid, it_partName = ''Filtro'', it_qty = qty, it_unit = Some ''pza''\<rparr>],
      po_notes = None\<rparr>"

definition farFutureOrder :: CreatePOParams where
  "farFutureOrder =
     \<lparr>c_partId = ''P-003'', c_qty = 1, c_vendor = None, c_etaDays = Some 1000000000,
      c_ticketId = None\<rparr>"

definition nextWeekOrder :: CreatePOParams where
  "nextWeekOrder =
     \<lparr>c_partId = ''P-003'', c_qty = 12, c_vendor = None, c_etaDays = Some 5,
      c_ticketId = None\<rparr>"


definition receiveStore :: state where
  "receiveStore =
     \<lparr>role = MANAGEMENT, tickets = [], parts = [samplePart ''P-005'' 3 0],
      pos = [samplePO ''OC-1'' ORDERED ''P-005'' 12], movements = []\<rparr>"

definition reserveStore :: state where
  "reserveStore =
     \<lparr>role = MAINTENANCE, tickets = [sampleTicket ''T-1001'', sampleTicket ''T-1002''],
      parts = [samplePart ''P-003'' 1 0], pos = [], movements = []\<rparr>"

definition heldTicket :: Ticket where
  "heldTicket =
     (sampleTicket ''T-1001'')\<lparr>t_status := WAITING_PART, needsPart := Some True,
        t_partId := Some ''P-003'', t_partName := Some ''Filtro'', t_partQty := Some 2\<rparr>"

definition heldStore :: state where
  "heldStore =
     \<lparr>role = MAINTENANCE, tickets = [heldTicket, sampleTicket ''T-1002''],
      parts = [samplePart ''P-003'' 3 2], pos = [], movements = []\<rparr>"

definition workshopStore :: state where
  "workshopStore =
     \<lparr>role = MANAGEMENT, tickets = [sampleTicket ''T-1001'', sampleTicket ''T-1002''],
      parts = [samplePart ''P-003'' 10 0], pos = [], movements = []\<rparr>"

definition doubleRelease :: "(int \<times> event) list" where
  "doubleRelease =
     [(1, Command (Reserve ''T-1001'' ''P-003'' 2)),
      (2, Command (Reserve ''T-1002'' ''P-003'' 2)),
      (3, Command (Release ''T-1002'' None)),
      (4, Command (Release ''T-1002'' None))]"

definition twoReservations :: state where
  "twoReservations =
     run [(1, Command (Reserve ''T-1001'' ''P-003'' 2)),
          (2, Command (Reserve ''T-1002'' ''P-003'' 2))] workshopStore"

definition negativeOrderStore :: state where
  "negativeOrderStore =
     \<lparr>role = MANAGEMENT, tickets = [], parts = [samplePart ''P-005'' 3 0],
      pos = [samplePO ''OC-1'' ORDERED ''P-005'' (- 5)], movements = []\<rparr>"

definition busyDay :: "(int \<times> event) list" where
  "busyDay =
     [(1, Command (Reserve ''T-1001'' ''P-003'' 2)),
      (2, Command (Issue ''T-1001'' None)),
      (3, Command (Issue ''T-1001'' None)),
      (4, Command (Release ''T-1001'' None)),
      (5, Command (CreatePO \<lparr>c_partId = ''P-003'', c_qty = 12, c_vendor = None,
                              c_etaDays = Some 5, c_ticketId = Some ''T-1002''\<rparr>)),
      (6, Command (ReceivePO ''OC-1'')),
      (7, Command (AdjustStock \<lparr>j_partId = ''P-003'', j_delta = - 40, j_note = None\<rparr>)),
      (8, UpdateTicket ''T-1002'' (noPatch\<lparr>u_status := Some RESOLVED\<rparr>) (Text ''Resuelto'')),
      (9, SetRole MAINTENANCE)]"

definition verifiedStore :: state where
  "verifiedStore =
     \<lparr>role = MANAGEMENT,
      tickets = [sampleTicket ''T-1001'', heldTicket\<lparr>t_id := ''T-1003'', t_status := VERIFIED\<rparr>],
      parts = [samplePart ''P-003'' 3 2], pos = [], movements = []\<rparr>"

definition afterClosing :: "(int \<times> event) list" where
  "afterClosing =
     [(1, Command (CreatePO \<lparr>c_partId = ''P-003'', c_qty = 4, c_vendor = None,
                              c_etaDays = None, c_ticketId = Some ''T-1003''\<rparr>)),
      (2, UpdateTicket ''T-1003'' (noPatch\<lparr>u_isOccupied := Some False\<rparr>) (Text ''Nota'')),
      (3, Command (Reserve ''T-1001'' ''P-003'' 1)),
      (4, Command (Issue ''T-1003'' None)),
      (5, Command (Release ''T-1003'' None)),
      (6, Command (ReceivePO ''OC-1''))]"

definition adjustTwice :: "(int \<times> event) list" where
  "adjustTwice =
     [(1, Command (AdjustStock \<lparr>j_partId = ''P-003'', j_delta = - 2, j_note = Some ''conteo''\<rparr>)),
      (2, Command (AdjustStock \<lparr>j_partId = ''P-003'', j_delta = 4, j_note = Some ''conteo''\<rparr>))]"

definition releaseTwice :: "(int \<times> event) list" where
  "releaseTwice =
     [(1, Command (Reserve ''T-1001'' ''P-003'' 2)),
      (2, Command (Release ''T-1001'' None)),
      (3, Command (Release ''T-1001'' None))]"

definition quietDay :: "(int \<times> event) list" where
  "quietDay =
     [(1, Command (Reserve ''T-1001'' ''P-003'' 2)),
      (2, Command (Reserve ''T-1002'' ''P-003'' 3)),
      (3, Command (Issue ''T-1001'' None)),
      (4, Command (Release ''T-1002'' None)),
      (5, Command (Release ''T-1002'' None)),
      (6, Command (CreatePO \<lparr>c_partId = ''P-003'', c_qty = 12, c_vendor = None,
                              c_etaDays = Some 5, c_ticketId = None\<rparr>)),
      (7, Command (ReceivePO ''OC-1'')),
      (8, Command (AdjustStock \<lparr>j_partId = ''P-003'', j_delta = 3, j_note = None\<rparr>))]"

section \<open>Properties\<close>

subsection \<open>Basic facts\<close>

lemma ok_failure [simp]: "ok (failure m) = False"
  by (simp add: failure_def)

lemma ok_success [simp]: "ok (success m) = True"
  by (simp add: success_def)

lemma message_failure [simp]: "message (failure m) = m"
  by (simp add: failure_def)

lemma stateAfter_simps [simp]:
  "stateAfter now (Reserve ticketId partId qty) s = snd (reservePartForTicket now ticketId partId qty s)"
  "stateAfter now (Release ticketId nt) s = snd (releaseReservationForTicket now ticketId nt s)"
  "stateAfter now (Issue ticketId nt) s = snd (issueReservedPartForTicket now ticketId nt s)"
  "stateAfter now (CreatePO params) s = afterCreatePO now params s"
  "stateAfter now (ReceivePO poId) s = snd (receivePO now poId s)"
  "stateAfter now (AdjustStock ap) s = snd (adjustStock now ap s)"
  by (simp_all add: stateAfter_def afterCreatePO_def)

lemma addMovement_sel [simp]:
  "role (addMovement now pid ty q n tk po s) = role s"
  "tickets (addMovement now pid ty q n tk po s) = tickets s"
  "parts (addMovement now pid ty q n tk po s) = parts s"
  "pos (addMovement now pid ty q n tk po s) = pos s"
  by (simp_all add: addMovement_def)

lemma updateTicket_sel [simp]:
  "role (updateTicket now tid u a s) = role s"
  "parts (updateTicket now tid u a s) = parts s"
  "pos (updateTicket now tid u a s) = pos s"
  "movements (updateTicket now tid u a s) = movements s"
  by (simp_all add: updateTicket_def)

lemma movementKey_addMovement [simp]:
  "map movementKey (movements (addMovement now pid ty q n tk po s)) =
     (ty, pid, q) # map movementKey (movements s)"
  by (simp add: addMovement_def movementKey_def)

lemma fold_addMovement_sel [simp]:
  "role (fold (\<lambda>i. addMovement now (f i) ty (g i) n tk po) items s) = role s"
  "tickets (fold (\<lambda>i. addMovement now (f i) ty (g i) n tk po) items s) = tickets s"
  "parts (fold (\<lambda>i. addMovement now (f i) ty (g i) n tk po) items s) = parts s"
  "pos (fold (\<lambda>i. addMovement now (f i) ty (g i) n tk po) items s) = pos s"
  by (induction items arbitrary: s) simp_all

lemma fold_addMovement_keys:
  "map movementKey (movements (fold (\<lambda>i. addMovement now (f i) ty (g i) n tk po) items s)) =
     rev (map (\<lambda>i. (ty, f i, g i)) items) @ map movementKey (movements s)"
  by (induction items arbitrary: s) simp_all

lemma foldl_add_sum_list:
  "foldl (\<lambda>a i. a + f i) a xs = a + sum_list (map f xs)" for a :: rat
  by (induction xs arbitrary: a) simp_all

subsection \<open>Receiving a purchase order\<close>








subsection \<open>Failed commands\<close>

lemma exec_never_throws_but_createPO:
  "exec now c s = Inl e \<Longrightarrow>
     \<exists>params part. c = CreatePO params \<and> canCreatePO (role s)
       \<and> find (\<lambda>p. p_id p = c_partId params) (parts s) = Some part
       \<and> \<not> validTime (poEta now params part)"
  by (cases c)
     (auto simp add: createPOForPart_def Let_def poEta_def split: option.splits if_splits)

lemma exec_failure_unchanged:
  "exec now c s = Inr (r, s') \<Longrightarrow> \<not> ok r \<Longrightarrow> s' = s \<and> r = failure (message r)"
proof (cases c)
  case (Reserve ticketId partId qty)
  assume "exec now c s = Inr (r, s')" "\<not> ok r"
  with Reserve show ?thesis
    by (auto simp add: reservePartForTicket_def Let_def split: option.splits if_splits)
next
  case (Release ticketId nt)
  assume "exec now c s = Inr (r, s')" "\<not> ok r"
  with Release show ?thesis
    by (auto simp add: releaseReservationForTicket_def Let_def split: option.splits if_splits)
next
  case (Issue ticketId nt)
  assume "exec now c s = Inr (r, s')" "\<not> ok r"
  with Issue show ?thesis
    by (auto simp add: issueReservedPartForTicket_def Let_def split: option.splits if_splits)
next
  case (CreatePO params)
  assume "exec now c s = Inr (r, s')" "\<not> ok r"
  with CreatePO show ?thesis
    by (auto simp add: createPOForPart_def Let_def split: option.splits if_splits)
next
  case (ReceivePO poId)
  assume "exec now c s = Inr (r, s')" "\<not> ok r"
  with ReceivePO show ?thesis
    by (auto simp add: receivePO_def Let_def split: option.splits if_splits)
next
  case (AdjustStock params)
  assume "exec now c s = Inr (r, s')" "\<not> ok r"
  with AdjustStock show ?thesis
    by (auto simp add: adjustStock_def Let_def split: option.splits if_splits)
qed

text \<open>
  Claim C6, as the code has it.  \<open>createPOForPart\<close> formats the ETA date with
  \<open>toISOString\<close>, which throws when the date is out of range, so the claim needs a
  proviso.  Provided that, when the command is a \<open>createPOForPart\<close> by a permitted
  actor for a known part, the ETA date \<open>now + (etaDays ?? leadTimeDays ?? 3)\<close> days
  is a valid time value, each of the six commands returns a result record
  \<open>{ok, message}\<close> and does not throw; and when the result has
  \<open>ok = False\<close> the store that the command leaves behind is the store it was given
  (role, tickets, parts, purchase orders and movements are all unchanged) and the result
  is a failure record carrying one of the messages.
\<close>

theorem failed_command_leaves_state:
  assumes "\<And>params part. c = CreatePO params \<Longrightarrow> canCreatePO (role s) \<Longrightarrow>
             find (\<lambda>p. p_id p = c_partId params) (parts s) = Some part \<Longrightarrow>
             validTime (poEta now params part)"
  shows "\<exists>r s'. exec now c s = Inr (r, s')
           \<and> (\<not> ok r \<longrightarrow> s' = s \<and> stateAfter now c s = s \<and> r = failure (message r))"
proof (cases "exec now c s")
  case (Inl e)
  from exec_never_throws_but_createPO [OF Inl] assms show ?thesis
    by blast
next
  case (Inr rs)
  obtain r s' where rs: "rs = (r, s')"
    by (cases rs)
  from exec_failure_unchanged [of now c s r s'] Inr rs
  have "\<not> ok r \<longrightarrow> s' = s \<and> stateAfter now c s = s \<and> r = failure (message r)"
    by (simp add: stateAfter_def)
  with Inr rs show ?thesis
    by blast
qed

theorem failed_command_leaves_state_witness:
  "exec 7 (ReceivePO ''OC-9'') receiveStore = Inr (failure OCNoEncontrada, receiveStore)
   \<and> exec 7 (CreatePO nextWeekOrder) (receiveStore\<lparr>role := MAINTENANCE\<rparr>)
        = Inr (failure SoloGerenciaGenerarOC, receiveStore\<lparr>role := MAINTENANCE\<rparr>)
   \<and> validTime (poEta 7 nextWeekOrder (samplePart ''P-003'' 10 0))
   \<and> isl (exec 7 (CreatePO nextWeekOrder) workshopStore) = False"
proof -
  have v1: "exec 7 (ReceivePO ''OC-9'') receiveStore = Inr (failure OCNoEncontrada, receiveStore)"
    by code_simp
  have v2: "exec 7 (CreatePO nextWeekOrder) (receiveStore\<lparr>role := MAINTENANCE\<rparr>)
        = Inr (failure SoloGerenciaGenerarOC, receiveStore\<lparr>role := MAINTENANCE\<rparr>)"
    by code_simp
  have findP: "find (\<lambda>p. p_id p = c_partId nextWeekOrder) (parts workshopStore)
                 = Some (samplePart ''P-003'' 10 0)"
    by code_simp
  have valid: "validTime (poEta 7 nextWeekOrder (samplePart ''P-003'' 10 0))"
    by code_simp
  have "\<exists>r s'. exec 7 (CreatePO nextWeekOrder) workshopStore = Inr (r, s')
           \<and> (\<not> ok r \<longrightarrow> s' = workshopStore
                 \<and> stateAfter 7 (CreatePO nextWeekOrder) workshopStore = workshopStore
                 \<and> r = failure (message r))"
  proof (rule failed_command_leaves_state)
    fix params part
    assume "CreatePO nextWeekOrder = CreatePO params"
      and "find (\<lambda>p. p_id p = c_partId params) (parts workshopStore) = Some part"
    with findP valid show "validTime (poEta 7 params part)"
      by simp
  qed
  then have v3: "isl (exec 7 (CreatePO nextWeekOrder) workshopStore) = False"
    by auto
  from v1 v2 valid v3 show ?thesis
    by blast
qed

theorem command_throws_counterexample:
  "canCreatePO (role workshopStore)
   \<and> find (\<lambda>p. p_id p = c_partId farFutureOrder) (parts workshopStore)
        = Some (samplePart ''P-003'' 10 0)
   \<and> poEta 1 farFutureOrder (samplePart ''P-003'' 10 0) = 86400000000000001
   \<and> exec 1 (CreatePO farFutureOrder) workshopStore = Inl RangeError"
  by code_simp

subsection \<open>Priority\<close>

text \<open>
  Claim C3.  \<open>calculatePriority\<close>, evaluated at the instant \<open>now\<close>, is the
  formula of the specification applied to the ticket's status, urgency, impact,
  occupancy and creation instant, and to nothing else: 0 for a RESOLVED or VERIFIED
  ticket, otherwise urgency points (HIGH 50, MEDIUM 30, LOW 10) plus impact points
  (BLOCKING 40, ANNOYING 20, NONE 0) plus 30 when occupied plus
  \<open>min (daysOpen * 5) 30\<close> with \<open>daysOpen\<close> the fractional number of days
  between creation and \<open>now\<close>, rounded to the nearest integer.  Being a function of
  those five inputs and the instant, the score is deterministic in them.
\<close>

theorem calculatePriority_formula:
  "calculatePriority now t =
     priorityFormula now (t_status t) (urgency t) (impact t) (isOccupied t) (t_createdAt t)"
  by (cases "urgency t"; cases "impact t")
     (simp_all add: calculatePriority_def priorityFormula_def urgencyPoints_def
        impactPoints_def Let_def)

theorem calculatePriority_formula_witness:
  "calculatePriority 43200000 (sampleTicket ''T-1001'') = 103
   \<and> priorityFormula 43200000 OPEN HIGH ANNOYING True 0 = 103
   \<and> calculatePriority 43200000 ((sampleTicket ''T-1001'')\<lparr>t_status := VERIFIED\<rparr>) = 0"
  using calculatePriority_formula [of 43200000 "sampleTicket ''T-1001''"]
    calculatePriority_formula [of 43200000 "(sampleTicket ''T-1001'')\<lparr>t_status := VERIFIED\<rparr>"]
  by (simp add: sampleTicket_def priorityFormula_def urgencyPoints_def impactPoints_def
        Math_round_def)

subsection \<open>Reserving a part\<close>

lemma find_map_part:
  assumes "\<And>p. p_id (f p) = p_id p"
  shows "find (\<lambda>p. p_id p = k) (map f xs) = map_option f (find (\<lambda>p. p_id p = k) xs)"
  by (induction xs) (simp_all add: assms)

lemma releaseParts_find:
  "find (\<lambda>p. p_id p = k) (releaseParts ticket xs) =
     map_option (\<lambda>p. if Some (p_id p) \<noteq> t_partId ticket then p
               else p\<lparr>stockReserved := clampNonNeg (stockReserved p - the (t_partQty ticket))\<rparr>)
       (find (\<lambda>p. p_id p = k) xs)"
  unfolding releaseParts_def by (rule find_map_part) simp

lemma normQty_ge_1: "1 \<le> normQty qty"
  by (simp add: normQty_def)

lemma normQty_whole: "qty \<in> \<int> \<Longrightarrow> normQty qty = max 1 qty"
  by (auto simp add: normQty_def numOr_def Math_floor_def elim!: Ints_cases)

lemma normQty_one [simp]: "normQty 1 = 1"
  by (simp add: normQty_def numOr_def Math_floor_def)

lemma reserve_success:
  assumes perm: "canReserve (role s)"
    and findT: "find (\<lambda>t. t_id t = ticketId) (tickets s) = Some ticket"
    and findP: "find (\<lambda>p. p_id p = partId) (parts s) = Some part"
    and enough: "normQty qty \<le> getAvailableStock part"
  shows "fst (reservePartForTicket now ticketId partId qty s) = success RefaccionReservada"
    and "role (snd (reservePartForTicket now ticketId partId qty s)) = role s"
    and "pos (snd (reservePartForTicket now ticketId partId qty s)) = pos s"
    and "parts (snd (reservePartForTicket now ticketId partId qty s)) =
          map (\<lambda>p. if p_id p = partId then p\<lparr>stockReserved := stockReserved p + normQty qty\<rparr> else p)
            (if holdsReservation ticket then releaseParts ticket (parts s) else parts s)"
    and "map movementKey (movements (snd (reservePartForTicket now ticketId partId qty s))) =
          (RESERVE, partId, normQty qty)
            # (if holdsReservation ticket
               then [(RELEASE, the (t_partId ticket), the (t_partQty ticket))] else [])
            @ map movementKey (movements s)"
    and "tickets (snd (reservePartForTicket now ticketId partId qty s)) =
          map (\<lambda>t. if t_id t \<noteq> ticketId then t
                    else updateOne now (role s) (reservePatch partId part (normQty qty))
                           (ReservadaRefaccion (p_name part) (normQty qty)) t) (tickets s)"
  using assms
  by (simp_all add: reservePartForTicket_def Let_def getAvailableStock_def holdsReservation_def
        reservePatch_def updateTicket_def)

lemma reserve_insufficient:
  assumes perm: "canReserve (role s)"
    and findT: "find (\<lambda>t. t_id t = ticketId) (tickets s) = Some ticket"
    and findP: "find (\<lambda>p. p_id p = partId) (parts s) = Some part"
    and short: "getAvailableStock part < normQty qty"
  shows "reservePartForTicket now ticketId partId qty s =
           (failure (StockInsuficiente (getAvailableStock part) (normQty qty)), s)"
  using assms by (simp add: reservePartForTicket_def Let_def getAvailableStock_def)

lemma reserve_unknown_ticket:
  "find (\<lambda>t. t_id t = ticketId) (tickets s) = None \<Longrightarrow>
   \<not> ok (fst (reservePartForTicket now ticketId partId qty s))
   \<and> snd (reservePartForTicket now ticketId partId qty s) = s"
  by (simp add: reservePartForTicket_def Let_def)

lemma reserve_unknown_part:
  "find (\<lambda>p. p_id p = partId) (parts s) = None \<Longrightarrow>
   \<not> ok (fst (reservePartForTicket now ticketId partId qty s))
   \<and> snd (reservePartForTicket now ticketId partId qty s) = s"
  by (simp add: reservePartForTicket_def Let_def split: option.splits)

text \<open>
  Claim C10.  The availability check of \<open>reservePartForTicket\<close> reads the part
  as it is before the ticket's earlier reservation is released.  For a ticket that
  already reserves \<open>old\<close> units of the part, the call succeeds exactly when the
  normalised quantity is at most \<open>getAvailableStock part\<close>, that is
  \<open>max 0 (stockOnHand - stockReserved)\<close> with the old quantity still counted in
  \<open>stockReserved\<close>; otherwise it fails with the insufficient-stock result and
  the store is unchanged, whatever releasing \<open>old\<close> first would have freed.
\<close>

theorem reserve_checks_before_release:
  assumes perm: "canReserve (role s)"
    and findT: "find (\<lambda>t. t_id t = ticketId) (tickets s) = Some ticket"
    and findP: "find (\<lambda>p. p_id p = partId) (parts s) = Some part"
    and held: "t_partId ticket = Some partId" "t_partQty ticket = Some old" "0 < old"
  shows "getAvailableStock part = max 0 (stockOnHand part - stockReserved part)
    \<and> (ok (fst (reservePartForTicket now ticketId partId n s))
            \<longleftrightarrow> normQty n \<le> getAvailableStock part)
    \<and> (getAvailableStock part < normQty n \<longrightarrow>
          reservePartForTicket now ticketId partId n s =
            (failure (StockInsuficiente (getAvailableStock part) (normQty n)), s))"
proof -
  have c0: "getAvailableStock part = max 0 (stockOnHand part - stockReserved part)"
    by (simp add: getAvailableStock_def clampNonNeg_def)
  have "(ok (fst (reservePartForTicket now ticketId partId n s))
            \<longleftrightarrow> normQty n \<le> getAvailableStock part)
    \<and> (getAvailableStock part < normQty n \<longrightarrow>
          reservePartForTicket now ticketId partId n s =
            (failure (StockInsuficiente (getAvailableStock part) (normQty n)), s))"
  proof (cases "normQty n \<le> getAvailableStock part")
    case True
    from reserve_success(1) [OF perm findT findP True] True show ?thesis
      by simp
  next
    case False
    then have short: "getAvailableStock part < normQty n"
      by simp
    from reserve_insufficient [OF perm findT findP short] False show ?thesis
      by simp
  qed
  with c0 show ?thesis
    by (intro conjI) blast+
qed


lemma reserved_find:
  "find (\<lambda>p. p_id p = k)
     (map (\<lambda>p. if p_id p = partId then p\<lparr>stockReserved := stockReserved p + q\<rparr> else p) xs) =
   map_option (\<lambda>p. if p_id p = partId then p\<lparr>stockReserved := stockReserved p + q\<rparr> else p)
     (find (\<lambda>p. p_id p = k) xs)"
  by (rule find_map_part) simp

lemma updateOne_sel [simp]:
  "t_id (updateOne now r u a t) = (case u_id u of None \<Rightarrow> t_id t | Some v \<Rightarrow> v)"
  "t_status (updateOne now r u a t) = (case u_status u of None \<Rightarrow> t_status t | Some v \<Rightarrow> v)"
  "t_partId (updateOne now r u a t) = (case u_partId u of None \<Rightarrow> t_partId t | Some v \<Rightarrow> v)"
  "t_partQty (updateOne now r u a t) = (case u_partQty u of None \<Rightarrow> t_partQty t | Some v \<Rightarrow> v)"
  by (simp_all add: updateOne_def applyPatch_def Let_def)

lemma find_updated_ticket:
  assumes "u_id u = None"
  shows "find (\<lambda>t. t_id t = k)
           (map (\<lambda>t. if t_id t \<noteq> tid then t else updateOne now r u a t) ts) =
         map_option (\<lambda>t. if t_id t \<noteq> tid then t else updateOne now r u a t)
           (find (\<lambda>t. t_id t = k) ts)"
  by (induction ts) (simp_all add: assms)

text \<open>
  Claim C4.  \<open>reservePartForTicket\<close> fails when no ticket has the given id and
  when no part has the given id; with a permitted actor and both found it fails with
  the insufficient-stock result, leaving the store unchanged, when the available stock
  \<open>max 0 (stockOnHand - stockReserved)\<close> is below the requested quantity (the
  quantity as the source normalises it, \<open>normQty\<close>; for a whole-number request
  the raw quantity gives the same verdict).  Scenario: on a part with stock 1 and
  nothing reserved a reservation of 1 succeeds, and after it every further reservation
  of 1 of that part fails, for a known ticket with "insufficient stock, available 0,
  required 1".
\<close>

theorem reserve_rejections:
  "getAvailableStock part = max 0 (stockOnHand part - stockReserved part)
   \<and> (find (\<lambda>t. t_id t = ticketId) (tickets s) = None \<longrightarrow>
      \<not> ok (fst (reservePartForTicket now ticketId partId qty s)))
   \<and> (find (\<lambda>p. p_id p = partId) (parts s) = None \<longrightarrow>
      \<not> ok (fst (reservePartForTicket now ticketId partId qty s)))
   \<and> (canReserve (role s) \<and> find (\<lambda>t. t_id t = ticketId) (tickets s) = Some ticket
        \<and> find (\<lambda>p. p_id p = partId) (parts s) = Some part
        \<and> getAvailableStock part < normQty qty \<longrightarrow>
      reservePartForTicket now ticketId partId qty s =
        (failure (StockInsuficiente (getAvailableStock part) (normQty qty)), s))
   \<and> (canReserve (role s) \<and> find (\<lambda>t. t_id t = ticketId) (tickets s) = Some ticket
        \<and> find (\<lambda>p. p_id p = partId) (parts s) = Some part
        \<and> qty \<in> \<int> \<and> getAvailableStock part < qty \<longrightarrow>
      \<not> ok (fst (reservePartForTicket now ticketId partId qty s)))
   \<and> (canReserve (role s) \<and> find (\<lambda>t. t_id t = ticketId) (tickets s) = Some ticket
        \<and> find (\<lambda>p. p_id p = partId) (parts s) = Some part
        \<and> stockOnHand part = 1 \<and> stockReserved part = 0 \<longrightarrow>
      ok (fst (reservePartForTicket now ticketId partId 1 s))
      \<and> (\<forall>now' other.
            \<not> ok (fst (reservePartForTicket now' other partId 1
                        (snd (reservePartForTicket now ticketId partId 1 s))))
            \<and> (find (\<lambda>t. t_id t = other)
                   (tickets (snd (reservePartForTicket now ticketId partId 1 s))) \<noteq> None \<longrightarrow>
                 fst (reservePartForTicket now' other partId 1
                        (snd (reservePartForTicket now ticketId partId 1 s)))
                   = failure (StockInsuficiente 0 1))))"
proof -
  have c0: "getAvailableStock part = max 0 (stockOnHand part - stockReserved part)"
    by (simp add: getAvailableStock_def clampNonNeg_def)
  have c1: "(find (\<lambda>t. t_id t = ticketId) (tickets s) = None \<longrightarrow>
      \<not> ok (fst (reservePartForTicket now ticketId partId qty s)))"
  proof (intro impI)
    assume "find (\<lambda>t. t_id t = ticketId) (tickets s) = None"
    then show "\<not> ok (fst (reservePartForTicket now ticketId partId qty s))"
      by (simp add: reserve_unknown_ticket)
  qed
  have c2: "(find (\<lambda>p. p_id p = partId) (parts s) = None \<longrightarrow>
      \<not> ok (fst (reservePartForTicket now ticketId partId qty s)))"
  proof (intro impI)
    assume "find (\<lambda>p. p_id p = partId) (parts s) = None"
    then show "\<not> ok (fst (reservePartForTicket now ticketId partId qty s))"
      by (simp add: reserve_unknown_part)
  qed
  have c3: "(canReserve (role s) \<and> find (\<lambda>t. t_id t = ticketId) (tickets s) = Some ticket
        \<and> find (\<lambda>p. p_id p = partId) (parts s) = Some part
        \<and> getAvailableStock part < normQty qty \<longrightarrow>
      reservePartForTicket now ticketId partId qty s =
        (failure (StockInsuficiente (getAvailableStock part) (normQty qty)), s))"
  proof (intro impI)
    assume "canReserve (role s) \<and> find (\<lambda>t. t_id t = ticketId) (tickets s) = Some ticket
          \<and> find (\<lambda>p. p_id p = partId) (parts s) = Some part
          \<and> getAvailableStock part < normQty qty"
    then show "reservePartForTicket now ticketId partId qty s =
          (failure (StockInsuficiente (getAvailableStock part) (normQty qty)), s)"
      by (simp add: reserve_insufficient)
  qed
  have c4: "(canReserve (role s) \<and> find (\<lambda>t. t_id t = ticketId) (tickets s) = Some ticket
        \<and> find (\<lambda>p. p_id p = partId) (parts s) = Some part
        \<and> qty \<in> \<int> \<and> getAvailableStock part < qty \<longrightarrow>
      \<not> ok (fst (reservePartForTicket now ticketId partId qty s)))"
  proof (intro impI)
    assume a: "canReserve (role s) \<and> find (\<lambda>t. t_id t = ticketId) (tickets s) = Some ticket
          \<and> find (\<lambda>p. p_id p = partId) (parts s) = Some part
          \<and> qty \<in> \<int> \<and> getAvailableStock part < qty"
    then have "getAvailableStock part < normQty qty"
      by (auto simp add: normQty_whole)
    with a show "\<not> ok (fst (reservePartForTicket now ticketId partId qty s))"
      by (simp add: reserve_insufficient)
  qed
  have c5: "(canReserve (role s) \<and> find (\<lambda>t. t_id t = ticketId) (tickets s) = Some ticket
        \<and> find (\<lambda>p. p_id p = partId) (parts s) = Some part
        \<and> stockOnHand part = 1 \<and> stockReserved part = 0 \<longrightarrow>
      ok (fst (reservePartForTicket now ticketId partId 1 s))
      \<and> (\<forall>now' other.
            \<not> ok (fst (reservePartForTicket now' other partId 1
                        (snd (reservePartForTicket now ticketId partId 1 s))))
            \<and> (find (\<lambda>t. t_id t = other)
                   (tickets (snd (reservePartForTicket now ticketId partId 1 s))) \<noteq> None \<longrightarrow>
                 fst (reservePartForTicket now' other partId 1
                        (snd (reservePartForTicket now ticketId partId 1 s)))
                   = failure (StockInsuficiente 0 1))))"
  proof (intro impI)
    assume a: "canReserve (role s) \<and> find (\<lambda>t. t_id t = ticketId) (tickets s) = Some ticket
          \<and> find (\<lambda>p. p_id p = partId) (parts s) = Some part
          \<and> stockOnHand part = 1 \<and> stockReserved part = 0"
    then have perm: "canReserve (role s)"
      and findT: "find (\<lambda>t. t_id t = ticketId) (tickets s) = Some ticket"
      and findP: "find (\<lambda>p. p_id p = partId) (parts s) = Some part"
      and h: "stockOnHand part = 1" and r: "stockReserved part = 0"
      by simp_all
    have enough: "normQty 1 \<le> getAvailableStock part"
      by (simp add: getAvailableStock_def clampNonNeg_def h r)
    note first = reserve_success [OF perm findT findP enough, of now]
    define s1 where "s1 = snd (reservePartForTicket now ticketId partId 1 s)"
    have role1: "canReserve (role s1)"
      unfolding s1_def using first(2) perm by simp
    have pid: "p_id part = partId"
      using findP by (auto simp add: find_Some_iff)
    have "\<exists>part1. find (\<lambda>p. p_id p = partId) (parts s1) = Some part1
            \<and> getAvailableStock part1 = 0"
    proof (cases "holdsReservation ticket")
      case True
      then have "0 < the (t_partQty ticket)"
        by (simp add: holdsReservation_def)
      with True show ?thesis
        unfolding s1_def first(4)
        by (simp add: reserved_find releaseParts_find findP pid getAvailableStock_def
              clampNonNeg_def h r)
    next
      case False
      then show ?thesis
        unfolding s1_def first(4)
        by (simp add: reserved_find findP pid getAvailableStock_def clampNonNeg_def h r)
    qed
    then obtain part1 where find1: "find (\<lambda>p. p_id p = partId) (parts s1) = Some part1"
      and avail1: "getAvailableStock part1 = 0"
      by blast
    have second: "\<not> ok (fst (reservePartForTicket now' other partId 1 s1))
              \<and> (find (\<lambda>t. t_id t = other) (tickets s1) \<noteq> None \<longrightarrow>
                   fst (reservePartForTicket now' other partId 1 s1)
                     = failure (StockInsuficiente 0 1))" for now' other
    proof (cases "find (\<lambda>t. t_id t = other) (tickets s1)")
      case None
      then show ?thesis
        by (simp add: reserve_unknown_ticket)
    next
      case (Some ticket2)
      have short: "getAvailableStock part1 < normQty 1"
        by (simp add: avail1)
      from reserve_insufficient [OF role1 Some find1 short, of now'] Some show ?thesis
        by (simp add: avail1)
    qed
    from first(1) second
    show "ok (fst (reservePartForTicket now ticketId partId 1 s))
        \<and> (\<forall>now' other.
              \<not> ok (fst (reservePartForTicket now' other partId 1
                          (snd (reservePartForTicket now ticketId partId 1 s))))
              \<and> (find (\<lambda>t. t_id t = other)
                     (tickets (snd (reservePartForTicket now ticketId partId 1 s))) \<noteq> None \<longrightarrow>
                   fst (reservePartForTicket now' other partId 1
                          (snd (reservePartForTicket now ticketId partId 1 s)))
                     = failure (StockInsuficiente 0 1)))"
      unfolding s1_def by simp
  qed
  show ?thesis
    by (intro conjI c0 c1 c2 c3 c4 c5)
qed

theorem reserve_checks_before_release_witness:
  "reservePartForTicket 7 ''T-1001'' ''P-003'' 3 heldStore =
     (failure (StockInsuficiente 1 3), heldStore)
   \<and> \<not> ok (fst (reservePartForTicket 7 ''T-1001'' ''P-003'' 3 heldStore))
   \<and> t_partQty heldTicket = Some 2
   \<and> normQty 3 \<le> max 0 (stockOnHand (samplePart ''P-003'' 3 2)
                            - (stockReserved (samplePart ''P-003'' 3 2) - 2))"
proof -
  have perm: "canReserve (role heldStore)"
    by code_simp
  have findT: "find (\<lambda>t. t_id t = ''T-1001'') (tickets heldStore) = Some heldTicket"
    by code_simp
  have findP: "find (\<lambda>p. p_id p = ''P-003'') (parts heldStore) = Some (samplePart ''P-003'' 3 2)"
    by code_simp
  have held: "t_partId heldTicket = Some ''P-003''" "t_partQty heldTicket = Some 2" "(0::rat) < 2"
    by (simp_all add: heldTicket_def)
  have avail: "getAvailableStock (samplePart ''P-003'' 3 2) = 1"
    by code_simp
  have q: "normQty 3 = 3"
    by code_simp
  from reserve_checks_before_release [OF perm findT findP held, where now = 7 and n = 3]
  have a: "reservePartForTicket 7 ''T-1001'' ''P-003'' 3 heldStore =
             (failure (StockInsuficiente 1 3), heldStore)"
    by (simp add: avail q)
  have b: "normQty 3 \<le> max 0 (stockOnHand (samplePart ''P-003'' 3 2)
                            - (stockReserved (samplePart ''P-003'' 3 2) - 2))"
    by (simp add: q samplePart_def)
  from a b held(2) show ?thesis
    by simp
qed

theorem reserve_rejections_witness:
  "\<not> ok (fst (reservePartForTicket 7 ''T-9999'' ''P-003'' 1 reserveStore))
   \<and> \<not> ok (fst (reservePartForTicket 7 ''T-1001'' ''P-999'' 1 reserveStore))
   \<and> reservePartForTicket 7 ''T-1001'' ''P-003'' 2 reserveStore =
        (failure (StockInsuficiente 1 2), reserveStore)
   \<and> ok (fst (reservePartForTicket 7 ''T-1001'' ''P-003'' 1 reserveStore))
   \<and> fst (reservePartForTicket 8 ''T-1002'' ''P-003'' 1
             (snd (reservePartForTicket 7 ''T-1001'' ''P-003'' 1 reserveStore)))
        = failure (StockInsuficiente 0 1)"
proof -
  have perm: "canReserve (role reserveStore)"
    by code_simp
  have noT: "find (\<lambda>t. t_id t = ''T-9999'') (tickets reserveStore) = None"
    by code_simp
  have noP: "find (\<lambda>p. p_id p = ''P-999'') (parts reserveStore) = None"
    by code_simp
  have findT: "find (\<lambda>t. t_id t = ''T-1001'') (tickets reserveStore) = Some (sampleTicket ''T-1001'')"
    by code_simp
  have findP: "find (\<lambda>p. p_id p = ''P-003'') (parts reserveStore) = Some (samplePart ''P-003'' 1 0)"
    by code_simp
  have avail: "getAvailableStock (samplePart ''P-003'' 1 0) = 1"
    by code_simp
  have q: "normQty 2 = 2"
    by code_simp
  have stock: "stockOnHand (samplePart ''P-003'' 1 0) = 1" "stockReserved (samplePart ''P-003'' 1 0) = 0"
    by (simp_all add: samplePart_def)
  have known: "find (\<lambda>t. t_id t = ''T-1002'')
                 (tickets (snd (reservePartForTicket 7 ''T-1001'' ''P-003'' 1 reserveStore))) \<noteq> None"
    by code_simp
  from reserve_rejections [where ticketId = "''T-9999''" and s = reserveStore and now = 7
      and partId = "''P-003''" and qty = 1] noT
  have w1: "\<not> ok (fst (reservePartForTicket 7 ''T-9999'' ''P-003'' 1 reserveStore))"
    by simp
  from reserve_rejections [where ticketId = "''T-1001''" and s = reserveStore and now = 7
      and partId = "''P-999''" and qty = 1] noP
  have w2: "\<not> ok (fst (reservePartForTicket 7 ''T-1001'' ''P-999'' 1 reserveStore))"
    by simp
  from reserve_rejections [where ticketId = "''T-1001''" and s = reserveStore and now = 7
      and partId = "''P-003''" and qty = 2 and ticket = "sampleTicket ''T-1001''"
      and part = "samplePart ''P-003'' 1 0"] perm findT findP
  have w3: "reservePartForTicket 7 ''T-1001'' ''P-003'' 2 reserveStore =
        (failure (StockInsuficiente 1 2), reserveStore)"
    by (simp add: avail q)
  from reserve_rejections [where ticketId = "''T-1001''" and s = reserveStore and now = 7
      and partId = "''P-003''" and qty = 1 and ticket = "sampleTicket ''T-1001''"
      and part = "samplePart ''P-003'' 1 0"] perm findT findP stock
  have w4: "ok (fst (reservePartForTicket 7 ''T-1001'' ''P-003'' 1 reserveStore))
      \<and> (\<forall>now' other.
            \<not> ok (fst (reservePartForTicket now' other ''P-003'' 1
                        (snd (reservePartForTicket 7 ''T-1001'' ''P-003'' 1 reserveStore))))
            \<and> (find (\<lambda>t. t_id t = other)
                   (tickets (snd (reservePartForTicket 7 ''T-1001'' ''P-003'' 1 reserveStore))) \<noteq> None \<longrightarrow>
                 fst (reservePartForTicket now' other ''P-003'' 1
                        (snd (reservePartForTicket 7 ''T-1001'' ''P-003'' 1 reserveStore)))
                   = failure (StockInsuficiente 0 1)))"
    by blast
  from w4 known
  have w5: "fst (reservePartForTicket 8 ''T-1002'' ''P-003'' 1
             (snd (reservePartForTicket 7 ''T-1001'' ''P-003'' 1 reserveStore)))
        = failure (StockInsuficiente 0 1)"
    by blast
  from w1 w2 w3 w4 w5 show ?thesis
    by blast
qed

lemma find_map_same:
  assumes "\<And>x. P (f x) = P x"
  shows "find P (map f xs) = map_option f (find P xs)"
  by (induction xs) (simp_all add: assms)

text \<open>
  Claim C5, as the code has it.  When \<open>reservePartForTicket\<close> succeeds for a
  ticket whose \<open>partId\<close> and \<open>partQty\<close> show an earlier reservation, every
  part with the old id first has \<open>stockReserved\<close> lowered by the old quantity,
  clamped at zero, and then every part with the new id has \<open>stockReserved\<close>
  raised by the new quantity; the ledger gains a RELEASE movement for the old part and
  quantity and, after it, the RESERVE movement for the new ones (the ledger is kept
  newest first).  For a re-reservation of the same part the resulting
  \<open>stockReserved\<close> is \<open>clampNonNeg (stockReserved - oldQty) + newQty\<close>;
  that is a net change of \<open>newQty - oldQty\<close> when the part's
  \<open>stockReserved\<close> was at least the old quantity.
\<close>

theorem reserve_supersedes:
  assumes perm: "canReserve (role s)"
    and findT: "find (\<lambda>t. t_id t = ticketId) (tickets s) = Some ticket"
    and findP: "find (\<lambda>p. p_id p = partId) (parts s) = Some part"
    and enough: "normQty qty \<le> getAvailableStock part"
    and held: "t_partId ticket = Some oldPart" "oldPart \<noteq> []"
      "t_partQty ticket = Some oldQty" "0 < oldQty"
  shows "ok (fst (reservePartForTicket now ticketId partId qty s))
    \<and> parts (snd (reservePartForTicket now ticketId partId qty s)) =
        map (\<lambda>p. if p_id p = partId then p\<lparr>stockReserved := stockReserved p + normQty qty\<rparr> else p)
          (map (\<lambda>p. if p_id p \<noteq> oldPart then p
                     else p\<lparr>stockReserved := clampNonNeg (stockReserved p - oldQty)\<rparr>) (parts s))
    \<and> map movementKey (movements (snd (reservePartForTicket now ticketId partId qty s))) =
        (RESERVE, partId, normQty qty) # (RELEASE, oldPart, oldQty) # map movementKey (movements s)
    \<and> (oldPart = partId \<longrightarrow>
         map_option stockReserved
           (find (\<lambda>p. p_id p = partId) (parts (snd (reservePartForTicket now ticketId partId qty s))))
         = Some (clampNonNeg (stockReserved part - oldQty) + normQty qty))
    \<and> (oldPart = partId \<and> oldQty \<le> stockReserved part \<longrightarrow>
         map_option stockReserved
           (find (\<lambda>p. p_id p = partId) (parts (snd (reservePartForTicket now ticketId partId qty s))))
         = Some (stockReserved part + (normQty qty - oldQty)))"
proof -
  define s' where "s' = snd (reservePartForTicket now ticketId partId qty s)"
  have holds: "holdsReservation ticket"
    using held by (simp add: holdsReservation_def truthyStr_def truthyNum_def)
  note first = reserve_success [OF perm findT findP enough, of now]
  have rel: "releaseParts ticket (parts s) =
               map (\<lambda>p. if p_id p \<noteq> oldPart then p
                         else p\<lparr>stockReserved := clampNonNeg (stockReserved p - oldQty)\<rparr>) (parts s)"
    by (simp add: releaseParts_def held)
  have c1: "ok (fst (reservePartForTicket now ticketId partId qty s))"
    by (simp add: first(1))
  have c2: "parts s' =
        map (\<lambda>p. if p_id p = partId then p\<lparr>stockReserved := stockReserved p + normQty qty\<rparr> else p)
          (map (\<lambda>p. if p_id p \<noteq> oldPart then p
                     else p\<lparr>stockReserved := clampNonNeg (stockReserved p - oldQty)\<rparr>) (parts s))"
    unfolding s'_def first(4) by (simp only: holds if_True rel)
  have c3: "map movementKey (movements s') =
        (RESERVE, partId, normQty qty) # (RELEASE, oldPart, oldQty) # map movementKey (movements s)"
    unfolding s'_def first(5) by (simp add: holds held)
  have pid: "p_id part = partId"
    using findP by (auto simp add: find_Some_iff)
  have f: "oldPart = partId \<Longrightarrow> find (\<lambda>p. p_id p = partId) (parts s') =
        Some (part\<lparr>stockReserved := clampNonNeg (stockReserved part - oldQty) + normQty qty\<rparr>)"
    unfolding c2 by (simp add: find_map_same findP pid)
  have c4: "oldPart = partId \<longrightarrow>
         map_option stockReserved (find (\<lambda>p. p_id p = partId) (parts s'))
         = Some (clampNonNeg (stockReserved part - oldQty) + normQty qty)"
    by (simp add: f)
  have c5: "oldPart = partId \<and> oldQty \<le> stockReserved part \<longrightarrow>
         map_option stockReserved (find (\<lambda>p. p_id p = partId) (parts s'))
         = Some (stockReserved part + (normQty qty - oldQty))"
    by (simp add: f clampNonNeg_def)
  have "ok (fst (reservePartForTicket now ticketId partId qty s))
    \<and> parts s' =
        map (\<lambda>p. if p_id p = partId then p\<lparr>stockReserved := stockReserved p + normQty qty\<rparr> else p)
          (map (\<lambda>p. if p_id p \<noteq> oldPart then p
                     else p\<lparr>stockReserved := clampNonNeg (stockReserved p - oldQty)\<rparr>) (parts s))
    \<and> map movementKey (movements s') =
        (RESERVE, partId, normQty qty) # (RELEASE, oldPart, oldQty) # map movementKey (movements s)
    \<and> (oldPart = partId \<longrightarrow>
         map_option stockReserved (find (\<lambda>p. p_id p = partId) (parts s'))
         = Some (clampNonNeg (stockReserved part - oldQty) + normQty qty))
    \<and> (oldPart = partId \<and> oldQty \<le> stockReserved part \<longrightarrow>
         map_option stockReserved (find (\<lambda>p. p_id p = partId) (parts s'))
         = Some (stockReserved part + (normQty qty - oldQty)))"
    by (intro conjI c1 c2 c3 c4 c5)
  then show ?thesis
    unfolding s'_def .
qed

theorem reserve_supersedes_witness:
  "ok (fst (reservePartForTicket 7 ''T-1001'' ''P-003'' 1 heldStore))
   \<and> map stockReserved (parts (snd (reservePartForTicket 7 ''T-1001'' ''P-003'' 1 heldStore))) = [1]
   \<and> map movementKey (movements (snd (reservePartForTicket 7 ''T-1001'' ''P-003'' 1 heldStore))) =
        [(RESERVE, ''P-003'', 1), (RELEASE, ''P-003'', 2)]
   \<and> stockReserved (samplePart ''P-003'' 3 2) + (1 - 2) = 1"
proof -
  have perm: "canReserve (role heldStore)"
    by code_simp
  have findT: "find (\<lambda>t. t_id t = ''T-1001'') (tickets heldStore) = Some heldTicket"
    by code_simp
  have findP: "find (\<lambda>p. p_id p = ''P-003'') (parts heldStore) = Some (samplePart ''P-003'' 3 2)"
    by code_simp
  have enough: "normQty 1 \<le> getAvailableStock (samplePart ''P-003'' 3 2)"
    by code_simp
  have held: "t_partId heldTicket = Some ''P-003''" "''P-003'' \<noteq> []"
    "t_partQty heldTicket = Some 2" "(0::rat) < 2"
    by (simp_all add: heldTicket_def)
  have st: "parts heldStore = [samplePart ''P-003'' 3 2]" "movements heldStore = []"
    by (simp_all add: heldStore_def)
  from reserve_supersedes [OF perm findT findP enough held, of 7] show ?thesis
    by (simp add: st samplePart_def clampNonNeg_def)
qed

theorem reserve_supersedes_counterexample:
  "map t_partId (tickets (run doubleRelease workshopStore)) = [Some ''P-003'', Some ''P-003'']
   \<and> map t_partQty (tickets (run doubleRelease workshopStore)) = [Some 2, Some 2]
   \<and> map stockReserved (parts (run doubleRelease workshopStore)) = [0]
   \<and> ok (fst (reservePartForTicket 5 ''T-1001'' ''P-003'' 1 (run doubleRelease workshopStore)))
   \<and> map stockReserved
        (parts (snd (reservePartForTicket 5 ''T-1001'' ''P-003'' 1 (run doubleRelease workshopStore))))
      = [1]
   \<and> (1::rat) - 0 \<noteq> 1 - 2"
  by code_simp

subsection \<open>Issuing a reserved part\<close>

lemma patch_needsPart_sel [simp]:
  "u_id (noPatch\<lparr>u_needsPart := x\<rparr>) = None"
  "u_status (noPatch\<lparr>u_needsPart := x\<rparr>) = None"
  "u_partId (noPatch\<lparr>u_needsPart := x\<rparr>) = None"
  "u_partQty (noPatch\<lparr>u_needsPart := x\<rparr>) = None"
  by (simp_all add: noPatch_def)

lemma issue_success:
  assumes perm: "canReserve (role s)"
    and findT: "find (\<lambda>t. t_id t = ticketId) (tickets s) = Some ticket"
    and linked: "truthyStr (t_partId ticket)" "truthyNum (t_partQty ticket)"
    and findP: "find (\<lambda>p. Some (p_id p) = t_partId ticket) (parts s) = Some part"
  shows "fst (issueReservedPartForTicket now ticketId nt s) = success RefaccionConsumida"
    and "role (snd (issueReservedPartForTicket now ticketId nt s)) = role s"
    and "pos (snd (issueReservedPartForTicket now ticketId nt s)) = pos s"
    and "parts (snd (issueReservedPartForTicket now ticketId nt s)) = issueParts ticket (parts s)"
    and "map movementKey (movements (snd (issueReservedPartForTicket now ticketId nt s))) =
          (ISSUE, the (t_partId ticket), issueQty ticket) # map movementKey (movements s)"
    and "tickets (snd (issueReservedPartForTicket now ticketId nt s)) =
          map (\<lambda>t. if t_id t \<noteq> ticketId then t
                    else updateOne now (role s) (noPatch\<lparr>u_needsPart := Some (Some False)\<rparr>)
                           (RefaccionUtilizada (p_name part) (issueQty ticket)) t) (tickets s)"
  using assms
  by (simp_all add: issueReservedPartForTicket_def Let_def issueParts_def issueQty_def
        updateTicket_def)

lemma issueParts_find:
  "find (\<lambda>p. Some (p_id p) = k) (issueParts ticket xs) =
     map_option (\<lambda>p. if Some (p_id p) \<noteq> t_partId ticket then p
               else p\<lparr>stockReserved := clampNonNeg (stockReserved p - issueQty ticket),
                      stockOnHand := clampNonNeg (stockOnHand p - issueQty ticket)\<rparr>)
       (find (\<lambda>p. Some (p_id p) = k) xs)"
  unfolding issueParts_def by (rule find_map_same) simp

lemma issueParts_cong:
  "t_partId a = t_partId b \<Longrightarrow> t_partQty a = t_partQty b \<Longrightarrow> issueParts a = issueParts b"
  by (simp add: issueParts_def issueQty_def fun_eq_iff)

lemma clampNonNeg_nonneg [simp]: "0 \<le> clampNonNeg x"
  by (simp add: clampNonNeg_def)

lemma issueParts_nonneg:
  "p \<in> set (issueParts ticket xs) \<Longrightarrow> Some (p_id p) = t_partId ticket \<Longrightarrow>
     0 \<le> stockOnHand p \<and> 0 \<le> stockReserved p"
  by (induction xs) (auto simp add: issueParts_def split: if_splits)

text \<open>
  Claim C8, as the code has it.  \<open>issueReservedPartForTicket\<close> rejects a ticket
  only when it has no part linkage (\<open>partId\<close>, \<open>partQty\<close>) or the part is
  gone, and a successful issue keeps the linkage on the ticket.  So after a successful
  issue a second issue for the same ticket, with nothing in between, succeeds as well:
  it lowers \<open>stockOnHand\<close> and \<open>stockReserved\<close> of the part by the same
  quantity once more, each clamped at zero, so that neither goes below zero.
\<close>

theorem issue_twice_decrements_twice:
  assumes perm: "canReserve (role s)"
    and findT: "find (\<lambda>t. t_id t = ticketId) (tickets s) = Some ticket"
    and linked: "truthyStr (t_partId ticket)" "truthyNum (t_partQty ticket)"
    and findP: "find (\<lambda>p. Some (p_id p) = t_partId ticket) (parts s) = Some part"
  shows "ok (fst (issueReservedPartForTicket now ticketId nt s))
    \<and> parts (snd (issueReservedPartForTicket now ticketId nt s)) = issueParts ticket (parts s)
    \<and> ok (fst (issueReservedPartForTicket now' ticketId nt'
                 (snd (issueReservedPartForTicket now ticketId nt s))))
    \<and> parts (snd (issueReservedPartForTicket now' ticketId nt'
                 (snd (issueReservedPartForTicket now ticketId nt s))))
        = issueParts ticket (issueParts ticket (parts s))
    \<and> (\<forall>p \<in> set (parts (snd (issueReservedPartForTicket now' ticketId nt'
                 (snd (issueReservedPartForTicket now ticketId nt s))))).
          Some (p_id p) = t_partId ticket \<longrightarrow> 0 \<le> stockOnHand p \<and> 0 \<le> stockReserved p)"
proof -
  define s1 where "s1 = snd (issueReservedPartForTicket now ticketId nt s)"
  define ticket1 where
    "ticket1 = updateOne now (role s) (noPatch\<lparr>u_needsPart := Some (Some False)\<rparr>)
                 (RefaccionUtilizada (p_name part) (issueQty ticket)) ticket"
  note first = issue_success [OF perm findT linked findP, of now nt]
  have tid: "t_id ticket = ticketId"
    using findT by (auto simp add: find_Some_iff)
  have perm1: "canReserve (role s1)"
    unfolding s1_def first(2) by (rule perm)
  have findT1: "find (\<lambda>t. t_id t = ticketId) (tickets s1) = Some ticket1"
    unfolding s1_def first(6) ticket1_def by (simp add: find_updated_ticket findT tid)
  have same: "t_partId ticket1 = t_partId ticket" "t_partQty ticket1 = t_partQty ticket"
    unfolding ticket1_def by simp_all
  have linked1: "truthyStr (t_partId ticket1)" "truthyNum (t_partQty ticket1)"
    unfolding same by (rule linked)+
  have "\<exists>part1. find (\<lambda>p. Some (p_id p) = t_partId ticket1) (parts s1) = Some part1"
    unfolding s1_def first(4) same by (simp add: issueParts_find findP)
  then obtain part1 where findP1: "find (\<lambda>p. Some (p_id p) = t_partId ticket1) (parts s1) = Some part1"
    by blast
  note second = issue_success [OF perm1 findT1 linked1 findP1, of now' nt']
  have c1: "ok (fst (issueReservedPartForTicket now ticketId nt s))"
    by (simp add: first(1))
  have c2: "parts s1 = issueParts ticket (parts s)"
    unfolding s1_def by (rule first(4))
  have c3: "ok (fst (issueReservedPartForTicket now' ticketId nt' s1))"
    by (simp add: second(1))
  have c4: "parts (snd (issueReservedPartForTicket now' ticketId nt' s1))
              = issueParts ticket (issueParts ticket (parts s))"
    unfolding second(4) c2 by (simp add: issueParts_cong [OF same])
  have c5: "\<forall>p \<in> set (parts (snd (issueReservedPartForTicket now' ticketId nt' s1))).
          Some (p_id p) = t_partId ticket \<longrightarrow> 0 \<le> stockOnHand p \<and> 0 \<le> stockReserved p"
    unfolding c4 by (intro ballI impI) (rule issueParts_nonneg)
  have "ok (fst (issueReservedPartForTicket now ticketId nt s))
    \<and> parts s1 = issueParts ticket (parts s)
    \<and> ok (fst (issueReservedPartForTicket now' ticketId nt' s1))
    \<and> parts (snd (issueReservedPartForTicket now' ticketId nt' s1))
        = issueParts ticket (issueParts ticket (parts s))
    \<and> (\<forall>p \<in> set (parts (snd (issueReservedPartForTicket now' ticketId nt' s1))).
          Some (p_id p) = t_partId ticket \<longrightarrow> 0 \<le> stockOnHand p \<and> 0 \<le> stockReserved p)"
    by (intro conjI c1 c2 c3 c4 c5)
  then show ?thesis
    unfolding s1_def .
qed

theorem issue_twice_decrements_twice_witness:
  "ok (fst (issueReservedPartForTicket 7 ''T-1001'' None heldStore))
   \<and> map stockOnHand (parts (snd (issueReservedPartForTicket 7 ''T-1001'' None heldStore))) = [1]
   \<and> ok (fst (issueReservedPartForTicket 8 ''T-1001'' None
                (snd (issueReservedPartForTicket 7 ''T-1001'' None heldStore))))
   \<and> map stockOnHand (parts (snd (issueReservedPartForTicket 8 ''T-1001'' None
                (snd (issueReservedPartForTicket 7 ''T-1001'' None heldStore))))) = [0]
   \<and> map stockReserved (parts (snd (issueReservedPartForTicket 8 ''T-1001'' None
                (snd (issueReservedPartForTicket 7 ''T-1001'' None heldStore))))) = [0]"
proof -
  have perm: "canReserve (role heldStore)"
    by code_simp
  have findT: "find (\<lambda>t. t_id t = ''T-1001'') (tickets heldStore) = Some heldTicket"
    by code_simp
  have linked: "truthyStr (t_partId heldTicket)" "truthyNum (t_partQty heldTicket)"
    by code_simp+
  have findP: "find (\<lambda>p. Some (p_id p) = t_partId heldTicket) (parts heldStore)
                 = Some (samplePart ''P-003'' 3 2)"
    by code_simp
  have once: "issueParts heldTicket (parts heldStore) = [samplePart ''P-003'' 1 0]"
    by code_simp
  have twice: "issueParts heldTicket [samplePart ''P-003'' 1 0] = [samplePart ''P-003'' 0 0]"
    by code_simp
  note w = issue_twice_decrements_twice [OF perm findT linked findP, of 7 None 8 None]
  from w have o1: "ok (fst (issueReservedPartForTicket 7 ''T-1001'' None heldStore))"
    by blast
  from w have p1: "parts (snd (issueReservedPartForTicket 7 ''T-1001'' None heldStore))
                     = [samplePart ''P-003'' 1 0]"
    unfolding once by blast
  from w have o2: "ok (fst (issueReservedPartForTicket 8 ''T-1001'' None
                (snd (issueReservedPartForTicket 7 ''T-1001'' None heldStore))))"
    by blast
  from w have p2: "parts (snd (issueReservedPartForTicket 8 ''T-1001'' None
                (snd (issueReservedPartForTicket 7 ''T-1001'' None heldStore))))
                     = [samplePart ''P-003'' 0 0]"
    unfolding once twice by blast
  show ?thesis
    unfolding p1 p2 using o1 o2 by (simp add: samplePart_def)
qed

theorem issue_twice_counterexample:
  "map stockOnHand (parts twoReservations) = [10]
   \<and> map stockReserved (parts twoReservations) = [4]
   \<and> ok (fst (issueReservedPartForTicket 3 ''T-1001'' None twoReservations))
   \<and> map stockOnHand (parts (snd (issueReservedPartForTicket 3 ''T-1001'' None twoReservations))) = [8]
   \<and> map stockReserved (parts (snd (issueReservedPartForTicket 3 ''T-1001'' None twoReservations))) = [2]
   \<and> ok (fst (issueReservedPartForTicket 4 ''T-1001'' None
                (snd (issueReservedPartForTicket 3 ''T-1001'' None twoReservations))))
   \<and> map stockOnHand (parts (snd (issueReservedPartForTicket 4 ''T-1001'' None
                (snd (issueReservedPartForTicket 3 ''T-1001'' None twoReservations))))) = [6]
   \<and> map stockReserved (parts (snd (issueReservedPartForTicket 4 ''T-1001'' None
                (snd (issueReservedPartForTicket 3 ''T-1001'' None twoReservations))))) = [0]
   \<and> parts (snd (issueReservedPartForTicket 4 ''T-1001'' None
                (snd (issueReservedPartForTicket 3 ''T-1001'' None twoReservations))))
      \<noteq> parts (snd (issueReservedPartForTicket 3 ''T-1001'' None twoReservations))"
  by code_simp

subsection \<open>What each command does when it succeeds\<close>

lemma reserve_outcome:
  "snd (reservePartForTicket now ticketId partId qty s) = s
   \<or> (\<exists>ticket part. canReserve (role s)
         \<and> find (\<lambda>t. t_id t = ticketId) (tickets s) = Some ticket
         \<and> find (\<lambda>p. p_id p = partId) (parts s) = Some part
         \<and> normQty qty \<le> getAvailableStock part)"
  by (simp add: reservePartForTicket_def Let_def getAvailableStock_def split: option.splits)

lemma release_outcome:
  "snd (releaseReservationForTicket now ticketId nt s) = s
   \<or> (\<exists>ticket. canReserve (role s)
         \<and> find (\<lambda>t. t_id t = ticketId) (tickets s) = Some ticket
         \<and> truthyStr (t_partId ticket) \<and> truthyNum (t_partQty ticket))"
  by (simp add: releaseReservationForTicket_def Let_def split: option.splits)

lemma release_success:
  assumes perm: "canReserve (role s)"
    and findT: "find (\<lambda>t. t_id t = ticketId) (tickets s) = Some ticket"
    and linked: "truthyStr (t_partId ticket)" "truthyNum (t_partQty ticket)"
  shows "fst (releaseReservationForTicket now ticketId nt s) = success ReservaLiberadaOk"
    and "role (snd (releaseReservationForTicket now ticketId nt s)) = role s"
    and "pos (snd (releaseReservationForTicket now ticketId nt s)) = pos s"
    and "parts (snd (releaseReservationForTicket now ticketId nt s)) = releaseParts ticket (parts s)"
    and "map movementKey (movements (snd (releaseReservationForTicket now ticketId nt s))) =
          (RELEASE, the (t_partId ticket), the (t_partQty ticket)) # map movementKey (movements s)"
    and "tickets (snd (releaseReservationForTicket now ticketId nt s)) =
          map (\<lambda>t. if t_id t \<noteq> ticketId then t
                    else updateOne now (role s) (noPatch\<lparr>u_needsPart := Some (Some False)\<rparr>)
                           ReservaLiberada t) (tickets s)"
  using assms
  by (simp_all add: releaseReservationForTicket_def Let_def updateTicket_def)

lemma issue_outcome:
  "snd (issueReservedPartForTicket now ticketId nt s) = s
   \<or> (\<exists>ticket part. canReserve (role s)
         \<and> find (\<lambda>t. t_id t = ticketId) (tickets s) = Some ticket
         \<and> truthyStr (t_partId ticket) \<and> truthyNum (t_partQty ticket)
         \<and> find (\<lambda>p. Some (p_id p) = t_partId ticket) (parts s) = Some part)"
  by (simp add: issueReservedPartForTicket_def Let_def split: option.splits)

lemma createPO_outcome:
  "afterCreatePO now params s = s
   \<or> (\<exists>part. canCreatePO (role s)
         \<and> find (\<lambda>p. p_id p = c_partId params) (parts s) = Some part
         \<and> validTime (poEta now params part))"
  by (simp add: afterCreatePO_def createPOForPart_def Let_def poEta_def split: option.splits)

lemma createPO_success:
  assumes perm: "canCreatePO (role s)"
    and findP: "find (\<lambda>p. p_id p = c_partId params) (parts s) = Some part"
    and valid: "validTime (poEta now params part)"
  shows "\<exists>r. createPOForPart now params s = Inr (r, afterCreatePO now params s) \<and> ok r"
    and "role (afterCreatePO now params s) = role s"
    and "parts (afterCreatePO now params s) = parts s"
    and "\<exists>po. pos (afterCreatePO now params s) = po # pos s
           \<and> po_status po = ORDERED
           \<and> po_items po = [\<lparr>it_partId = p_id part, it_partName = p_name part,
                               it_qty = createQty params, it_unit = Some (p_unit part)\<rparr>]"
    and "map movementKey (movements (afterCreatePO now params s)) =
          (PO_CREATED, p_id part, createQty params) # map movementKey (movements s)"
    and "tickets (afterCreatePO now params s) =
          (if truthyStr (c_ticketId params)
           then map (\<lambda>t. if t_id t \<noteq> the (c_ticketId params) then t
                          else updateOne now (role s)
                                 (noPatch\<lparr>u_poId := Some (Some (nextPOId (pos s)))\<rparr>)
                                 (OCVinculada (nextPOId (pos s))) t) (tickets s)
           else tickets s)"
  using assms
  by (simp_all add: afterCreatePO_def createPOForPart_def Let_def updateTicket_def createQty_def
        poEta_def)

lemma receivePO_outcome:
  "snd (receivePO now poId s) = s
   \<or> (\<exists>po. canCreatePO (role s)
         \<and> find (\<lambda>p. po_id p = poId) (pos s) = Some po \<and> po_status po \<noteq> RECEIVED)"
  by (simp add: receivePO_def Let_def split: option.splits)

lemma receivePO_success:
  assumes perm: "canCreatePO (role s)"
    and found: "find (\<lambda>p. po_id p = poId) (pos s) = Some po"
    and fresh: "po_status po \<noteq> RECEIVED"
  shows "ok (fst (receivePO now poId s))"
    and "role (snd (receivePO now poId s)) = role s"
    and "tickets (snd (receivePO now poId s)) = tickets s"
    and "parts (snd (receivePO now poId s)) = creditParts po (parts s)"
    and "pos (snd (receivePO now poId s)) =
          map (\<lambda>p. if po_id p = poId then p\<lparr>po_status := RECEIVED\<rparr> else p) (pos s)"
    and "map movementKey (movements (snd (receivePO now poId s))) =
          (PO_RECEIVED, summaryPartId po, sum_list (map it_qty (po_items po)))
            # rev (map (\<lambda>i. (RECEIVE, it_partId i, it_qty i)) (po_items po))
            @ map movementKey (movements s)"
  using assms
  by (simp_all add: receivePO_def Let_def fold_addMovement_keys summaryPartId_def
        foldl_add_sum_list)

lemma adjust_outcome:
  "snd (adjustStock now params s) = s
   \<or> (\<exists>part. canAdjustStock (role s)
         \<and> find (\<lambda>p. p_id p = j_partId params) (parts s) = Some part
         \<and> adjustDelta params \<noteq> 0)"
  by (simp add: adjustStock_def Let_def adjustDelta_def split: option.splits)

lemma adjust_success:
  assumes perm: "canAdjustStock (role s)"
    and findP: "find (\<lambda>p. p_id p = j_partId params) (parts s) = Some part"
    and nonzero: "adjustDelta params \<noteq> 0"
  shows "ok (fst (adjustStock now params s))"
    and "role (snd (adjustStock now params s)) = role s"
    and "tickets (snd (adjustStock now params s)) = tickets s"
    and "pos (snd (adjustStock now params s)) = pos s"
    and "parts (snd (adjustStock now params s)) =
          map (\<lambda>p. if p_id p \<noteq> j_partId params then p
                    else p\<lparr>stockOnHand := clampNonNeg (stockOnHand p + adjustDelta params)\<rparr>)
            (parts s)"
    and "map movementKey (movements (snd (adjustStock now params s))) =
          (ADJUST, j_partId params, \<bar>adjustDelta params\<bar>) # map movementKey (movements s)"
  using assms
  by (simp_all add: adjustStock_def Let_def adjustDelta_def)

subsection \<open>Stock never goes negative\<close>

lemma find_Some_set: "find P xs = Some x \<Longrightarrow> x \<in> set xs \<and> P x"
  by (induction xs) (auto split: if_splits)

lemma list_all_map_keep:
  "list_all P xs \<Longrightarrow> (\<And>x. P x \<Longrightarrow> P (f x)) \<Longrightarrow> list_all P (map f xs)"
  by (induction xs) auto

lemma releaseParts_ok: "list_all stockOk xs \<Longrightarrow> list_all stockOk (releaseParts ticket xs)"
  unfolding releaseParts_def by (erule list_all_map_keep) (simp add: stockOk_def)

lemma issueParts_ok: "list_all stockOk xs \<Longrightarrow> list_all stockOk (issueParts ticket xs)"
  unfolding issueParts_def by (erule list_all_map_keep) (simp add: stockOk_def)

lemma reserved_ok:
  "0 \<le> q \<Longrightarrow> list_all stockOk xs \<Longrightarrow>
   list_all stockOk (map (\<lambda>p. if p_id p = partId then p\<lparr>stockReserved := stockReserved p + q\<rparr>
                               else p) xs)"
  by (erule list_all_map_keep) (simp add: stockOk_def)

lemma adjusted_ok:
  "list_all stockOk xs \<Longrightarrow>
   list_all stockOk (map (\<lambda>p. if p_id p \<noteq> k then p
                               else p\<lparr>stockOnHand := clampNonNeg (stockOnHand p + d)\<rparr>) xs)"
  by (erule list_all_map_keep) (simp add: stockOk_def)

lemma creditParts_ok:
  assumes items: "list_all (\<lambda>i. 0 \<le> it_qty i) (po_items po)"
    and xs: "list_all stockOk xs"
  shows "list_all stockOk (creditParts po xs)"
  unfolding creditParts_def using xs
proof (rule list_all_map_keep)
  fix p
  assume p: "stockOk p"
  show "stockOk (case find (\<lambda>i. it_partId i = p_id p) (po_items po) of
                   None \<Rightarrow> p
                 | Some item \<Rightarrow> p\<lparr>stockOnHand := stockOnHand p + it_qty item\<rparr>)"
  proof (cases "find (\<lambda>i. it_partId i = p_id p) (po_items po)")
    case None
    with p show ?thesis by simp
  next
    case (Some item)
    then have "item \<in> set (po_items po)"
      by (simp add: find_Some_set)
    with items have "0 \<le> it_qty item"
      by (simp add: list_all_iff)
    with p Some show ?thesis
      by (simp add: stockOk_def)
  qed
qed

lemma exec_partsNonneg:
  assumes inv: "partsNonneg s" and items: "poItemsNonneg s"
  shows "partsNonneg (stateAfter now c s)"
proof (cases c)
  case (Reserve ticketId partId qty)
  from reserve_outcome [of now ticketId partId qty s] show ?thesis
  proof
    assume "snd (reservePartForTicket now ticketId partId qty s) = s"
    with Reserve inv show ?thesis by simp
  next
    assume "\<exists>ticket part. canReserve (role s)
         \<and> find (\<lambda>t. t_id t = ticketId) (tickets s) = Some ticket
         \<and> find (\<lambda>p. p_id p = partId) (parts s) = Some part
         \<and> normQty qty \<le> getAvailableStock part"
    then obtain ticket part where c: "canReserve (role s)"
        "find (\<lambda>t. t_id t = ticketId) (tickets s) = Some ticket"
        "find (\<lambda>p. p_id p = partId) (parts s) = Some part"
        "normQty qty \<le> getAvailableStock part"
      by blast
    have q: "0 \<le> normQty qty"
      using normQty_ge_1 [of qty] by simp
    from inv have "list_all stockOk (if holdsReservation ticket
                     then releaseParts ticket (parts s) else parts s)"
      by (simp add: partsNonneg_def releaseParts_ok)
    with Reserve show ?thesis
      unfolding partsNonneg_def by (simp add: reserve_success(4) [OF c] reserved_ok [OF q])
  qed
next
  case (Release ticketId nt)
  from release_outcome [of now ticketId nt s] show ?thesis
  proof
    assume "snd (releaseReservationForTicket now ticketId nt s) = s"
    with Release inv show ?thesis by simp
  next
    assume "\<exists>ticket. canReserve (role s)
         \<and> find (\<lambda>t. t_id t = ticketId) (tickets s) = Some ticket
         \<and> truthyStr (t_partId ticket) \<and> truthyNum (t_partQty ticket)"
    then obtain ticket where c: "canReserve (role s)"
        "find (\<lambda>t. t_id t = ticketId) (tickets s) = Some ticket"
        "truthyStr (t_partId ticket)" "truthyNum (t_partQty ticket)"
      by blast
    from Release inv show ?thesis
      unfolding partsNonneg_def by (simp add: release_success(4) [OF c] releaseParts_ok)
  qed
next
  case (Issue ticketId nt)
  from issue_outcome [of now ticketId nt s] show ?thesis
  proof
    assume "snd (issueReservedPartForTicket now ticketId nt s) = s"
    with Issue inv show ?thesis by simp
  next
    assume "\<exists>ticket part. canReserve (role s)
         \<and> find (\<lambda>t. t_id t = ticketId) (tickets s) = Some ticket
         \<and> truthyStr (t_partId ticket) \<and> truthyNum (t_partQty ticket)
         \<and> find (\<lambda>p. Some (p_id p) = t_partId ticket) (parts s) = Some part"
    then obtain ticket part where c: "canReserve (role s)"
        "find (\<lambda>t. t_id t = ticketId) (tickets s) = Some ticket"
        "truthyStr (t_partId ticket)" "truthyNum (t_partQty ticket)"
        "find (\<lambda>p. Some (p_id p) = t_partId ticket) (parts s) = Some part"
      by blast
    from Issue inv show ?thesis
      unfolding partsNonneg_def by (simp add: issue_success(4) [OF c] issueParts_ok)
  qed
next
  case (CreatePO params)
  from createPO_outcome [of now params s] show ?thesis
  proof
    assume "afterCreatePO now params s = s"
    with CreatePO inv show ?thesis by simp
  next
    assume "\<exists>part. canCreatePO (role s)
         \<and> find (\<lambda>p. p_id p = c_partId params) (parts s) = Some part
         \<and> validTime (poEta now params part)"
    then obtain part where c: "canCreatePO (role s)"
        "find (\<lambda>p. p_id p = c_partId params) (parts s) = Some part"
        "validTime (poEta now params part)"
      by blast
    from CreatePO inv show ?thesis
      unfolding partsNonneg_def by (simp add: createPO_success(3) [OF c])
  qed
next
  case (ReceivePO poId)
  from receivePO_outcome [of now poId s] show ?thesis
  proof
    assume "snd (receivePO now poId s) = s"
    with ReceivePO inv show ?thesis by simp
  next
    assume "\<exists>po. canCreatePO (role s)
         \<and> find (\<lambda>p. po_id p = poId) (pos s) = Some po \<and> po_status po \<noteq> RECEIVED"
    then obtain po where c: "canCreatePO (role s)"
        "find (\<lambda>p. po_id p = poId) (pos s) = Some po" "po_status po \<noteq> RECEIVED"
      by blast
    from c(2) have "po \<in> set (pos s)"
      by (simp add: find_Some_set)
    with items have "list_all (\<lambda>i. 0 \<le> it_qty i) (po_items po)"
      by (simp add: poItemsNonneg_def list_all_iff)
    with ReceivePO inv show ?thesis
      unfolding partsNonneg_def by (simp add: receivePO_success(4) [OF c] creditParts_ok)
  qed
next
  case (AdjustStock params)
  from adjust_outcome [of now params s] show ?thesis
  proof
    assume "snd (adjustStock now params s) = s"
    with AdjustStock inv show ?thesis by simp
  next
    assume "\<exists>part. canAdjustStock (role s)
         \<and> find (\<lambda>p. p_id p = j_partId params) (parts s) = Some part
         \<and> adjustDelta params \<noteq> 0"
    then obtain part where c: "canAdjustStock (role s)"
        "find (\<lambda>p. p_id p = j_partId params) (parts s) = Some part"
        "adjustDelta params \<noteq> 0"
      by blast
    from AdjustStock inv show ?thesis
      unfolding partsNonneg_def by (simp add: adjust_success(5) [OF c] adjusted_ok)
  qed
qed

lemma createQty_ge_1: "1 \<le> createQty params"
  by (simp add: createQty_def)

lemma exec_pos_cases:
  "pos (stateAfter now c s) = pos s
   \<or> (\<exists>po q. pos (stateAfter now c s) = po # pos s \<and> 1 \<le> q
         \<and> (\<exists>pid nm un. po_items po = [\<lparr>it_partId = pid, it_partName = nm, it_qty = q, it_unit = un\<rparr>]))
   \<or> (\<exists>poId. pos (stateAfter now c s) =
         map (\<lambda>p. if po_id p = poId then p\<lparr>po_status := RECEIVED\<rparr> else p) (pos s))"
proof (cases c)
  case (Reserve ticketId partId qty)
  from reserve_outcome [of now ticketId partId qty s] Reserve show ?thesis
    by (auto simp add: reserve_success(3))
next
  case (Release ticketId nt)
  from release_outcome [of now ticketId nt s] Release show ?thesis
    by (auto simp add: release_success(3))
next
  case (Issue ticketId nt)
  from issue_outcome [of now ticketId nt s] Issue show ?thesis
    by (auto simp add: issue_success(3))
next
  case (CreatePO params)
  from createPO_outcome [of now params s] show ?thesis
  proof
    assume "afterCreatePO now params s = s"
    with CreatePO show ?thesis by simp
  next
    assume "\<exists>part. canCreatePO (role s)
         \<and> find (\<lambda>p. p_id p = c_partId params) (parts s) = Some part
         \<and> validTime (poEta now params part)"
    then obtain part where c: "canCreatePO (role s)"
        "find (\<lambda>p. p_id p = c_partId params) (parts s) = Some part"
        "validTime (poEta now params part)"
      by blast
    from createPO_success(4) [OF c] createQty_ge_1 [of params] CreatePO show ?thesis
      by (intro disjI2 disjI1) auto
  qed
next
  case (ReceivePO poId)
  from receivePO_outcome [of now poId s] ReceivePO show ?thesis
    by (auto simp add: receivePO_success(5))
next
  case (AdjustStock params)
  from adjust_outcome [of now params s] AdjustStock show ?thesis
    by (auto simp add: adjust_success(4))
qed

lemma marked_items:
  "map po_items (map (\<lambda>p. if po_id p = poId then p\<lparr>po_status := RECEIVED\<rparr> else p) xs)
     = map po_items xs"
  by (induction xs) simp_all

lemma poItemsNonneg_items:
  "poItemsNonneg s = list_all (list_all (\<lambda>i. 0 \<le> it_qty i)) (map po_items (pos s))"
  by (simp add: poItemsNonneg_def list_all_iff)

lemma exec_poItemsNonneg:
  assumes items: "poItemsNonneg s"
  shows "poItemsNonneg (stateAfter now c s)"
proof -
  from exec_pos_cases [of now c s] consider
      (same) "pos (stateAfter now c s) = pos s"
    | (new) po q where "pos (stateAfter now c s) = po # pos s" "1 \<le> q"
        "\<exists>pid nm un. po_items po = [\<lparr>it_partId = pid, it_partName = nm, it_qty = q, it_unit = un\<rparr>]"
    | (marked) poId where "pos (stateAfter now c s) =
         map (\<lambda>p. if po_id p = poId then p\<lparr>po_status := RECEIVED\<rparr> else p) (pos s)"
    by blast
  then show ?thesis
  proof cases
    case same
    with items show ?thesis
      by (simp add: poItemsNonneg_def)
  next
    case new
    then have "list_all (\<lambda>i. 0 \<le> it_qty i) (po_items po)"
      by auto
    with new(1) items show ?thesis
      by (simp add: poItemsNonneg_def)
  next
    case marked
    have "map po_items (pos (stateAfter now c s)) = map po_items (pos s)"
      unfolding marked by (rule marked_items)
    with items show ?thesis
      by (simp only: poItemsNonneg_items)
  qed
qed

lemma applyEvent_invariant:
  assumes "partsNonneg s \<and> poItemsNonneg s"
  shows "partsNonneg (applyEvent e s) \<and> poItemsNonneg (applyEvent e s)"
proof -
  obtain now ev where e: "e = (now, ev)"
    by (cases e)
  show ?thesis
  proof (cases ev)
    case (Command c)
    with e assms show ?thesis
      by (simp add: exec_partsNonneg exec_poItemsNonneg)
  next
    case (UpdateTicket tid updates actionDescription)
    with e assms show ?thesis
      by (simp add: partsNonneg_def poItemsNonneg_def)
  next
    case (SetRole r)
    with e assms show ?thesis
      by (simp add: partsNonneg_def poItemsNonneg_def)
  qed
qed

lemma run_invariant:
  "partsNonneg s \<and> poItemsNonneg s \<Longrightarrow>
   partsNonneg (run evs s) \<and> poItemsNonneg (run evs s)"
  unfolding run_def
proof (induction evs arbitrary: s)
  case Nil
  then show ?case by simp
next
  case (Cons e evs)
  from Cons.prems have "partsNonneg (applyEvent e s) \<and> poItemsNonneg (applyEvent e s)"
    by (rule applyEvent_invariant)
  then show ?case
    using Cons.IH by simp
qed

text \<open>
  Claim C2, as the code has it.  \<open>receivePO\<close> adds the line-item quantity to
  \<open>stockOnHand\<close> without clamping, so the invariant needs the purchase orders of
  the starting store to carry no negative line-item quantity (orders made by
  \<open>createPOForPart\<close> carry a quantity of at least 1).  From a store whose parts all
  have \<open>stockOnHand \<ge> 0\<close> and \<open>stockReserved \<ge> 0\<close> and whose purchase
  orders have no negative line-item quantity, every sequence of events (the six commands,
  \<open>updateTicket\<close>, a change of role) leads to a store whose parts all have
  \<open>stockOnHand \<ge> 0\<close> and \<open>stockReserved \<ge> 0\<close>.
\<close>

theorem stock_never_negative:
  assumes "partsNonneg s" and "poItemsNonneg s"
  shows "partsNonneg (run evs s)"
  using run_invariant [of s evs] assms by simp

theorem stock_never_negative_witness:
  "partsNonneg workshopStore \<and> poItemsNonneg workshopStore
   \<and> partsNonneg (run busyDay workshopStore)
   \<and> map stockOnHand (parts (run busyDay workshopStore)) = [0]"
proof -
  have h1: "partsNonneg workshopStore"
    by code_simp
  have h2: "poItemsNonneg workshopStore"
    by code_simp
  have v: "map stockOnHand (parts (run busyDay workshopStore)) = [0]"
    by code_simp
  from stock_never_negative [OF h1 h2, of busyDay] h1 h2 v show ?thesis
    by simp
qed

theorem stock_never_negative_counterexample:
  "partsNonneg negativeOrderStore
   \<and> ok (fst (receivePO 1 ''OC-1'' negativeOrderStore))
   \<and> map stockOnHand (parts (stateAfter 1 (ReceivePO ''OC-1'') negativeOrderStore)) = [- 2]
   \<and> \<not> partsNonneg (run [(1, Command (ReceivePO ''OC-1''))] negativeOrderStore)"
  by code_simp

subsection \<open>Ticket status\<close>

lemma statusOf_keeps:
  "list_all2 (keeps tid) ts ts' \<Longrightarrow> statusOf tid ts' = statusOf tid ts"
  unfolding statusOf_def
  by (induction rule: list_all2_induct) (auto simp add: keeps_def)

lemma keeps_map:
  "(\<And>t. keeps tid t (f t)) \<Longrightarrow> list_all2 (keeps tid) ts (map f ts)"
  by (induction ts) simp_all

lemma updated_keeps:
  assumes "u_id u = None" and "k = tid \<longrightarrow> u_status u = None"
  shows "list_all2 (keeps tid) ts
           (map (\<lambda>t. if t_id t \<noteq> k then t else updateOne now r u a t) ts)"
  by (rule keeps_map) (simp add: keeps_def assms)

lemma patch_sel [simp]:
  "u_id (reservePatch partId part q) = None"
  "u_id (noPatch\<lparr>u_poId := x\<rparr>) = None"
  "u_status (noPatch\<lparr>u_poId := x\<rparr>) = None"
  by (simp_all add: reservePatch_def noPatch_def)

lemma exec_statusOf:
  assumes "\<not> rewritesStatus tid (Command c)"
  shows "statusOf tid (tickets (stateAfter now c s)) = statusOf tid (tickets s)"
proof (cases c)
  case (Reserve ticketId partId qty)
  with assms have other: "ticketId \<noteq> tid"
    by simp
  from reserve_outcome [of now ticketId partId qty s] show ?thesis
  proof
    assume "snd (reservePartForTicket now ticketId partId qty s) = s"
    with Reserve show ?thesis by simp
  next
    assume "\<exists>ticket part. canReserve (role s)
         \<and> find (\<lambda>t. t_id t = ticketId) (tickets s) = Some ticket
         \<and> find (\<lambda>p. p_id p = partId) (parts s) = Some part
         \<and> normQty qty \<le> getAvailableStock part"
    then obtain ticket part where c: "canReserve (role s)"
        "find (\<lambda>t. t_id t = ticketId) (tickets s) = Some ticket"
        "find (\<lambda>p. p_id p = partId) (parts s) = Some part"
        "normQty qty \<le> getAvailableStock part"
      by blast
    from Reserve other show ?thesis
      by (simp add: reserve_success(6) [OF c] statusOf_keeps updated_keeps)
  qed
next
  case (Release ticketId nt)
  from release_outcome [of now ticketId nt s] show ?thesis
  proof
    assume "snd (releaseReservationForTicket now ticketId nt s) = s"
    with Release show ?thesis by simp
  next
    assume "\<exists>ticket. canReserve (role s)
         \<and> find (\<lambda>t. t_id t = ticketId) (tickets s) = Some ticket
         \<and> truthyStr (t_partId ticket) \<and> truthyNum (t_partQty ticket)"
    then obtain ticket where c: "canReserve (role s)"
        "find (\<lambda>t. t_id t = ticketId) (tickets s) = Some ticket"
        "truthyStr (t_partId ticket)" "truthyNum (t_partQty ticket)"
      by blast
    from Release show ?thesis
      by (simp add: release_success(6) [OF c] statusOf_keeps updated_keeps)
  qed
next
  case (Issue ticketId nt)
  from issue_outcome [of now ticketId nt s] show ?thesis
  proof
    assume "snd (issueReservedPartForTicket now ticketId nt s) = s"
    with Issue show ?thesis by simp
  next
    assume "\<exists>ticket part. canReserve (role s)
         \<and> find (\<lambda>t. t_id t = ticketId) (tickets s) = Some ticket
         \<and> truthyStr (t_partId ticket) \<and> truthyNum (t_partQty ticket)
         \<and> find (\<lambda>p. Some (p_id p) = t_partId ticket) (parts s) = Some part"
    then obtain ticket part where c: "canReserve (role s)"
        "find (\<lambda>t. t_id t = ticketId) (tickets s) = Some ticket"
        "truthyStr (t_partId ticket)" "truthyNum (t_partQty ticket)"
        "find (\<lambda>p. Some (p_id p) = t_partId ticket) (parts s) = Some part"
      by blast
    from Issue show ?thesis
      by (simp add: issue_success(6) [OF c] statusOf_keeps updated_keeps)
  qed
next
  case (CreatePO params)
  from createPO_outcome [of now params s] show ?thesis
  proof
    assume "afterCreatePO now params s = s"
    with CreatePO show ?thesis by simp
  next
    assume "\<exists>part. canCreatePO (role s)
         \<and> find (\<lambda>p. p_id p = c_partId params) (parts s) = Some part
         \<and> validTime (poEta now params part)"
    then obtain part where c: "canCreatePO (role s)"
        "find (\<lambda>p. p_id p = c_partId params) (parts s) = Some part"
        "validTime (poEta now params part)"
      by blast
    from CreatePO show ?thesis
      by (simp add: createPO_success(6) [OF c] statusOf_keeps updated_keeps)
  qed
next
  case (ReceivePO poId)
  from receivePO_outcome [of now poId s] ReceivePO show ?thesis
    by (auto simp add: receivePO_success(3))
next
  case (AdjustStock params)
  from adjust_outcome [of now params s] AdjustStock show ?thesis
    by (auto simp add: adjust_success(3))
qed

lemma applyEvent_statusOf:
  assumes "\<not> rewritesStatus tid (snd e)"
  shows "statusOf tid (tickets (applyEvent e s)) = statusOf tid (tickets s)"
proof -
  obtain now ev where e: "e = (now, ev)"
    by (cases e)
  show ?thesis
  proof (cases ev)
    case (Command c)
    with e assms show ?thesis
      by (simp add: exec_statusOf)
  next
    case (UpdateTicket ticketId updates actionDescription)
    with e assms show ?thesis
      by (simp add: updateTicket_def statusOf_keeps updated_keeps)
  next
    case (SetRole r)
    with e show ?thesis
      by simp
  qed
qed

text \<open>
  Claim C7, as the code has it.  The engine has no guard on the status of a ticket:
  \<open>updateTicket\<close> writes whatever status its patch carries and a successful
  \<open>reservePartForTicket\<close> sets WAITING_PART, also on a VERIFIED ticket.  What holds
  is this: over every sequence of events that contains no reservation for the ticket id
  and no \<open>updateTicket\<close> whose patch sets an id or sets the status of that ticket
  id, the statuses of the tickets with that id stay as they are; in particular a
  VERIFIED ticket stays VERIFIED under releases, issues, purchase orders, stock
  adjustments, role changes and updates of its other fields.
\<close>

theorem verified_kept_without_status_writes:
  assumes "\<forall>e \<in> set evs. \<not> rewritesStatus tid (snd e)"
  shows "statusOf tid (tickets (run evs s)) = statusOf tid (tickets s)"
  using assms unfolding run_def
proof (induction evs arbitrary: s)
  case Nil
  show ?case by simp
next
  case (Cons e evs)
  from Cons.prems have "statusOf tid (tickets (applyEvent e s)) = statusOf tid (tickets s)"
    by (simp add: applyEvent_statusOf)
  moreover from Cons.prems
  have "statusOf tid (tickets (fold applyEvent evs (applyEvent e s)))
          = statusOf tid (tickets (applyEvent e s))"
    by (intro Cons.IH) simp
  ultimately show ?case
    by simp
qed

theorem verified_kept_without_status_writes_witness:
  "statusOf ''T-1003'' (tickets verifiedStore) = [VERIFIED]
   \<and> statusOf ''T-1003'' (tickets (run afterClosing verifiedStore)) = [VERIFIED]
   \<and> map stockOnHand (parts (run afterClosing verifiedStore)) = [5]"
proof -
  have h: "\<forall>e \<in> set afterClosing. \<not> rewritesStatus ''T-1003'' (snd e)"
    by code_simp
  have v: "statusOf ''T-1003'' (tickets verifiedStore) = [VERIFIED]"
    by code_simp
  have w: "map stockOnHand (parts (run afterClosing verifiedStore)) = [5]"
    by code_simp
  from verified_kept_without_status_writes [OF h, of verifiedStore] v w show ?thesis
    by simp
qed

theorem verified_is_terminal_counterexample:
  "statusOf ''T-1003'' (tickets verifiedStore) = [VERIFIED]
   \<and> statusOf ''T-1003''
        (tickets (updateTicket 9 ''T-1003'' (noPatch\<lparr>u_status := Some OPEN\<rparr>)
                    (Text ''Reabierto'') verifiedStore)) = [OPEN]
   \<and> ok (fst (reservePartForTicket 9 ''T-1003'' ''P-003'' 1 verifiedStore))
   \<and> statusOf ''T-1003''
        (tickets (snd (reservePartForTicket 9 ''T-1003'' ''P-003'' 1 verifiedStore)))
      = [WAITING_PART]"
  by code_simp

subsection \<open>The ledger and the stock\<close>

lemma p_id_applyKey [simp]: "p_id (applyKey k p) = p_id p"
  by (cases k) (simp split: PartMovementType.splits)

lemma applyKey_other [simp]: "pid \<noteq> p_id p \<Longrightarrow> applyKey (ty, pid, q) p = p"
  by simp

lemma replay_receive_none:
  "\<forall>i \<in> set items. it_partId i \<noteq> p_id p \<Longrightarrow>
   foldr applyKey (rev (map (\<lambda>i. (RECEIVE, it_partId i, it_qty i)) items)) p = p"
  by (induction items arbitrary: p) simp_all

lemma replay_receive:
  "distinct (map it_partId items) \<Longrightarrow>
   foldr applyKey (rev (map (\<lambda>i. (RECEIVE, it_partId i, it_qty i)) items)) p =
     (case find (\<lambda>i. it_partId i = p_id p) items of
        None \<Rightarrow> p
      | Some item \<Rightarrow> p\<lparr>stockOnHand := stockOnHand p + it_qty item\<rparr>)"
proof (induction items arbitrary: p)
  case Nil
  show ?case by simp
next
  case (Cons i items)
  show ?case
  proof (cases "it_partId i = p_id p")
    case True
    with Cons.prems have "\<forall>j \<in> set items. it_partId j \<noteq> p_id (p\<lparr>stockOnHand := stockOnHand p + it_qty i\<rparr>)"
      by force
    from replay_receive_none [OF this] True show ?thesis
      by simp
  next
    case False
    with Cons show ?thesis
      by simp
  qed
qed

lemma replay_credit:
  "distinct (map it_partId (po_items po)) \<Longrightarrow>
   map (foldr applyKey ((PO_RECEIVED, k, tq)
          # rev (map (\<lambda>i. (RECEIVE, it_partId i, it_qty i)) (po_items po)))) xs
     = creditParts po xs"
  by (simp add: creditParts_def replay_receive)

lemma replay_release:
  "truthyStr (t_partId ticket) \<Longrightarrow>
   map (applyKey (RELEASE, the (t_partId ticket), the (t_partQty ticket))) xs
     = releaseParts ticket xs"
  by (cases "t_partId ticket") (auto simp add: releaseParts_def truthyStr_def)

lemma replay_issue:
  "truthyStr (t_partId ticket) \<Longrightarrow>
   map (applyKey (ISSUE, the (t_partId ticket), issueQty ticket)) xs = issueParts ticket xs"
  by (cases "t_partId ticket") (auto simp add: issueParts_def truthyStr_def)

lemma replay_reserve:
  "map (applyKey (RESERVE, partId, q)) xs =
     map (\<lambda>p. if p_id p = partId then p\<lparr>stockReserved := stockReserved p + q\<rparr> else p) xs"
  by auto

lemma replay_adjust:
  "0 \<le> d \<Longrightarrow>
   map (applyKey (ADJUST, k, \<bar>d\<bar>)) xs =
     map (\<lambda>p. if p_id p \<noteq> k then p else p\<lparr>stockOnHand := clampNonNeg (stockOnHand p + d)\<rparr>) xs"
  by auto

lemma exec_replay:
  assumes dist: "poItemsDistinct s" and up: "\<not> lowersStock (Command c)"
  shows "\<exists>d. map movementKey (movements (stateAfter now c s)) = d @ map movementKey (movements s)
           \<and> parts (stateAfter now c s) = map (foldr applyKey d) (parts s)"
proof -
  have unchanged: ?thesis if "stateAfter now c s = s"
    using that by (intro exI [of _ "[]"]) simp
  show ?thesis
  proof (cases c)
    case (Reserve ticketId partId qty)
    from reserve_outcome [of now ticketId partId qty s] show ?thesis
    proof
      assume "snd (reservePartForTicket now ticketId partId qty s) = s"
      with Reserve unchanged show ?thesis by simp
    next
      assume "\<exists>ticket part. canReserve (role s)
           \<and> find (\<lambda>t. t_id t = ticketId) (tickets s) = Some ticket
           \<and> find (\<lambda>p. p_id p = partId) (parts s) = Some part
           \<and> normQty qty \<le> getAvailableStock part"
      then obtain ticket part where c: "canReserve (role s)"
          "find (\<lambda>t. t_id t = ticketId) (tickets s) = Some ticket"
          "find (\<lambda>p. p_id p = partId) (parts s) = Some part"
          "normQty qty \<le> getAvailableStock part"
        by blast
      show ?thesis
      proof (cases "holdsReservation ticket")
        case True
        then have linked: "truthyStr (t_partId ticket)"
          by (simp add: holdsReservation_def)
        have "parts (stateAfter now c s) =
                map (foldr applyKey [(RESERVE, partId, normQty qty),
                       (RELEASE, the (t_partId ticket), the (t_partQty ticket))]) (parts s)"
          unfolding Reserve stateAfter_simps reserve_success(4) [OF c]
          by (simp add: True replay_reserve [symmetric] replay_release [OF linked, symmetric])
        moreover have "map movementKey (movements (stateAfter now c s)) =
                [(RESERVE, partId, normQty qty),
                 (RELEASE, the (t_partId ticket), the (t_partQty ticket))]
                @ map movementKey (movements s)"
          unfolding Reserve stateAfter_simps reserve_success(5) [OF c] by (simp add: True)
        ultimately show ?thesis
          by blast
      next
        case False
        have "parts (stateAfter now c s) =
                map (foldr applyKey [(RESERVE, partId, normQty qty)]) (parts s)"
          unfolding Reserve stateAfter_simps reserve_success(4) [OF c]
          by (simp add: False replay_reserve [symmetric])
        moreover have "map movementKey (movements (stateAfter now c s)) =
                [(RESERVE, partId, normQty qty)] @ map movementKey (movements s)"
          unfolding Reserve stateAfter_simps reserve_success(5) [OF c] by (simp add: False)
        ultimately show ?thesis
          by blast
      qed
    qed
  next
    case (Release ticketId nt)
    from release_outcome [of now ticketId nt s] show ?thesis
    proof
      assume "snd (releaseReservationForTicket now ticketId nt s) = s"
      with Release unchanged show ?thesis by simp
    next
      assume "\<exists>ticket. canReserve (role s)
           \<and> find (\<lambda>t. t_id t = ticketId) (tickets s) = Some ticket
           \<and> truthyStr (t_partId ticket) \<and> truthyNum (t_partQty ticket)"
      then obtain ticket where c: "canReserve (role s)"
          "find (\<lambda>t. t_id t = ticketId) (tickets s) = Some ticket"
          "truthyStr (t_partId ticket)" "truthyNum (t_partQty ticket)"
        by blast
      have "parts (stateAfter now c s) =
              map (foldr applyKey [(RELEASE, the (t_partId ticket), the (t_partQty ticket))]) (parts s)"
        unfolding Release stateAfter_simps release_success(4) [OF c]
        by (simp add: replay_release [OF c(3), symmetric])
      moreover have "map movementKey (movements (stateAfter now c s)) =
              [(RELEASE, the (t_partId ticket), the (t_partQty ticket))]
              @ map movementKey (movements s)"
        unfolding Release stateAfter_simps release_success(5) [OF c] by simp
      ultimately show ?thesis
        by blast
    qed
  next
    case (Issue ticketId nt)
    from issue_outcome [of now ticketId nt s] show ?thesis
    proof
      assume "snd (issueReservedPartForTicket now ticketId nt s) = s"
      with Issue unchanged show ?thesis by simp
    next
      assume "\<exists>ticket part. canReserve (role s)
           \<and> find (\<lambda>t. t_id t = ticketId) (tickets s) = Some ticket
           \<and> truthyStr (t_partId ticket) \<and> truthyNum (t_partQty ticket)
           \<and> find (\<lambda>p. Some (p_id p) = t_partId ticket) (parts s) = Some part"
      then obtain ticket part where c: "canReserve (role s)"
          "find (\<lambda>t. t_id t = ticketId) (tickets s) = Some ticket"
          "truthyStr (t_partId ticket)" "truthyNum (t_partQty ticket)"
          "find (\<lambda>p. Some (p_id p) = t_partId ticket) (parts s) = Some part"
        by blast
      have "parts (stateAfter now c s) =
              map (foldr applyKey [(ISSUE, the (t_partId ticket), issueQty ticket)]) (parts s)"
        unfolding Issue stateAfter_simps issue_success(4) [OF c]
        by (simp add: replay_issue [OF c(3), symmetric])
      moreover have "map movementKey (movements (stateAfter now c s)) =
              [(ISSUE, the (t_partId ticket), issueQty ticket)] @ map movementKey (movements s)"
        unfolding Issue stateAfter_simps issue_success(5) [OF c] by simp
      ultimately show ?thesis
        by blast
    qed
  next
    case (CreatePO params)
    from createPO_outcome [of now params s] show ?thesis
    proof
      assume "afterCreatePO now params s = s"
      with CreatePO unchanged show ?thesis by simp
    next
      assume "\<exists>part. canCreatePO (role s)
           \<and> find (\<lambda>p. p_id p = c_partId params) (parts s) = Some part
           \<and> validTime (poEta now params part)"
      then obtain part where c: "canCreatePO (role s)"
          "find (\<lambda>p. p_id p = c_partId params) (parts s) = Some part"
          "validTime (poEta now params part)"
        by blast
      have "parts (stateAfter now c s) =
              map (foldr applyKey [(PO_CREATED, p_id part, createQty params)]) (parts s)"
        unfolding CreatePO stateAfter_simps createPO_success(3) [OF c]
        by (simp add: map_idI)
      moreover have "map movementKey (movements (stateAfter now c s)) =
              [(PO_CREATED, p_id part, createQty params)] @ map movementKey (movements s)"
        unfolding CreatePO stateAfter_simps createPO_success(5) [OF c] by simp
      ultimately show ?thesis
        by blast
    qed
  next
    case (ReceivePO poId)
    from receivePO_outcome [of now poId s] show ?thesis
    proof
      assume "snd (receivePO now poId s) = s"
      with ReceivePO unchanged show ?thesis by simp
    next
      assume "\<exists>po. canCreatePO (role s)
           \<and> find (\<lambda>p. po_id p = poId) (pos s) = Some po \<and> po_status po \<noteq> RECEIVED"
      then obtain po where c: "canCreatePO (role s)"
          "find (\<lambda>p. po_id p = poId) (pos s) = Some po" "po_status po \<noteq> RECEIVED"
        by blast
      from c(2) have "po \<in> set (pos s)"
        by (simp add: find_Some_set)
      with dist have d: "distinct (map it_partId (po_items po))"
        by (simp add: poItemsDistinct_def list_all_iff)
      have "parts (stateAfter now c s) =
              map (foldr applyKey ((PO_RECEIVED, summaryPartId po, sum_list (map it_qty (po_items po)))
                     # rev (map (\<lambda>i. (RECEIVE, it_partId i, it_qty i)) (po_items po)))) (parts s)"
        unfolding ReceivePO stateAfter_simps receivePO_success(4) [OF c]
        by (rule replay_credit [OF d, symmetric])
      moreover have "map movementKey (movements (stateAfter now c s)) =
              ((PO_RECEIVED, summaryPartId po, sum_list (map it_qty (po_items po)))
                 # rev (map (\<lambda>i. (RECEIVE, it_partId i, it_qty i)) (po_items po)))
              @ map movementKey (movements s)"
        unfolding ReceivePO stateAfter_simps receivePO_success(6) [OF c] by simp
      ultimately show ?thesis
        by blast
    qed
  next
    case (AdjustStock params)
    with up have pos: "0 \<le> adjustDelta params"
      by simp
    from adjust_outcome [of now params s] show ?thesis
    proof
      assume "snd (adjustStock now params s) = s"
      with AdjustStock unchanged show ?thesis by simp
    next
      assume "\<exists>part. canAdjustStock (role s)
           \<and> find (\<lambda>p. p_id p = j_partId params) (parts s) = Some part
           \<and> adjustDelta params \<noteq> 0"
      then obtain part where c: "canAdjustStock (role s)"
          "find (\<lambda>p. p_id p = j_partId params) (parts s) = Some part"
          "adjustDelta params \<noteq> 0"
        by blast
      have "parts (stateAfter now c s) =
              map (foldr applyKey [(ADJUST, j_partId params, \<bar>adjustDelta params\<bar>)]) (parts s)"
        unfolding AdjustStock stateAfter_simps adjust_success(5) [OF c]
        by (simp add: replay_adjust [OF pos, symmetric])
      moreover have "map movementKey (movements (stateAfter now c s)) =
              [(ADJUST, j_partId params, \<bar>adjustDelta params\<bar>)] @ map movementKey (movements s)"
        unfolding AdjustStock stateAfter_simps adjust_success(6) [OF c] by simp
      ultimately show ?thesis
        by blast
    qed
  qed
qed

lemma exec_poItemsDistinct:
  assumes dist: "poItemsDistinct s"
  shows "poItemsDistinct (stateAfter now c s)"
proof -
  have items: "poItemsDistinct t = list_all (\<lambda>its. distinct (map it_partId its)) (map po_items (pos t))"
    for t
    by (simp add: poItemsDistinct_def list_all_iff)
  from exec_pos_cases [of now c s] consider
      (same) "pos (stateAfter now c s) = pos s"
    | (new) po q where "pos (stateAfter now c s) = po # pos s" "1 \<le> q"
        "\<exists>pid nm un. po_items po = [\<lparr>it_partId = pid, it_partName = nm, it_qty = q, it_unit = un\<rparr>]"
    | (marked) poId where "pos (stateAfter now c s) =
         map (\<lambda>p. if po_id p = poId then p\<lparr>po_status := RECEIVED\<rparr> else p) (pos s)"
    by blast
  then show ?thesis
  proof cases
    case same
    with dist show ?thesis
      by (simp add: poItemsDistinct_def)
  next
    case new
    then have "distinct (map it_partId (po_items po))"
      by auto
    with new(1) dist show ?thesis
      by (simp add: poItemsDistinct_def)
  next
    case marked
    have "map po_items (pos (stateAfter now c s)) = map po_items (pos s)"
      unfolding marked by (rule marked_items)
    with dist show ?thesis
      by (simp only: items)
  qed
qed

lemma applyEvent_replay:
  assumes dist: "poItemsDistinct s" and up: "\<not> lowersStock (snd e)"
  shows "(\<exists>d. map movementKey (movements (applyEvent e s)) = d @ map movementKey (movements s)
            \<and> parts (applyEvent e s) = map (foldr applyKey d) (parts s))
         \<and> poItemsDistinct (applyEvent e s)"
proof -
  obtain now ev where e: "e = (now, ev)"
    by (cases e)
  have unchanged: ?thesis
    if "movements (applyEvent e s) = movements s" "parts (applyEvent e s) = parts s"
      "pos (applyEvent e s) = pos s"
    using that dist by (simp add: poItemsDistinct_def exI [of _ "[]"])
  show ?thesis
  proof (cases ev)
    case (Command c)
    with e up exec_replay [OF dist, of c now] exec_poItemsDistinct [OF dist, of now c]
    show ?thesis
      by simp
  next
    case (UpdateTicket ticketId updates actionDescription)
    with e show ?thesis
      by (intro unchanged) simp_all
  next
    case (SetRole r)
    with e show ?thesis
      by (intro unchanged) simp_all
  qed
qed

lemma run_replay:
  assumes "poItemsDistinct s" and "\<forall>e \<in> set evs. \<not> lowersStock (snd e)"
  shows "(\<exists>d. map movementKey (movements (run evs s)) = d @ map movementKey (movements s)
            \<and> parts (run evs s) = map (foldr applyKey d) (parts s))
         \<and> poItemsDistinct (run evs s)"
  using assms(2)
proof (induction evs rule: rev_induct)
  case Nil
  from assms(1) show ?case
    by (simp add: run_def exI [of _ "[]"])
next
  case (snoc e evs)
  then obtain d where d: "map movementKey (movements (run evs s)) = d @ map movementKey (movements s)"
      "parts (run evs s) = map (foldr applyKey d) (parts s)"
    and dist: "poItemsDistinct (run evs s)"
    by auto
  from snoc.prems have up: "\<not> lowersStock (snd e)"
    by simp
  have step: "run (evs @ [e]) s = applyEvent e (run evs s)"
    by (simp add: run_def)
  from applyEvent_replay [OF dist up] obtain d' where
    d': "map movementKey (movements (applyEvent e (run evs s)))
           = d' @ map movementKey (movements (run evs s))"
      "parts (applyEvent e (run evs s)) = map (foldr applyKey d') (parts (run evs s))"
    and dist': "poItemsDistinct (applyEvent e (run evs s))"
    by blast
  have "map movementKey (movements (run (evs @ [e]) s)) = (d' @ d) @ map movementKey (movements s)"
    unfolding step d'(1) d(1) by simp
  moreover have "parts (run (evs @ [e]) s) = map (foldr applyKey (d' @ d)) (parts s)"
    unfolding step d'(2) d(2) by simp
  ultimately show ?case
    using dist' unfolding step by blast
qed

lemma applyEvent_ledger_grows:
  "\<exists>more. movements (applyEvent e t) = more @ movements t"
proof -
  obtain now ev where e: "e = (now, ev)"
    by (cases e)
  show ?thesis
  proof (cases ev)
    case (Command c)
    show ?thesis
    proof (cases c)
      case (Reserve ticketId partId qty)
      with Command e show ?thesis
        by (simp add: reservePartForTicket_def Let_def addMovement_def updateTicket_def
              split: option.splits)
    next
      case (Release ticketId nt)
      with Command e show ?thesis
        by (simp add: releaseReservationForTicket_def Let_def addMovement_def updateTicket_def
              split: option.splits)
    next
      case (Issue ticketId nt)
      with Command e show ?thesis
        by (simp add: issueReservedPartForTicket_def Let_def addMovement_def updateTicket_def
              split: option.splits)
    next
      case (CreatePO params)
      with Command e show ?thesis
        by (simp add: afterCreatePO_def createPOForPart_def Let_def addMovement_def
              updateTicket_def split: option.splits)
    next
      case (ReceivePO poId)
      have grow: "\<exists>more. movements (fold (\<lambda>item. addMovement now (it_partId item) RECEIVE (it_qty item)
                   n None po) items u) = more @ movements u" for items n po u
      proof (induction items arbitrary: u)
        case Nil
        show ?case by simp
      next
        case (Cons i items)
        from Cons [of "addMovement now (it_partId i) RECEIVE (it_qty i) n None po u"]
        show ?case
          by (auto simp add: addMovement_def)
      qed
      show ?thesis
      proof (cases "snd (receivePO now poId t) = t")
        case True
        with ReceivePO Command e show ?thesis by simp
      next
        case False
        with receivePO_outcome [of now poId t] obtain po where c: "canCreatePO (role t)"
            "find (\<lambda>p. po_id p = poId) (pos t) = Some po" "po_status po \<noteq> RECEIVED"
          by blast
        from grow [of "RecepcionOC (po_id po)" "Some (po_id po)" "po_items po"
            "t\<lparr>parts := creditParts po (parts t)\<rparr>"]
        obtain more where "movements (fold (\<lambda>item. addMovement now (it_partId item) RECEIVE
             (it_qty item) (RecepcionOC (po_id po)) None (Some (po_id po))) (po_items po)
             (t\<lparr>parts := creditParts po (parts t)\<rparr>)) = more @ movements t"
          by auto
        with c ReceivePO Command e show ?thesis
          by (simp add: receivePO_def Let_def addMovement_def)
      qed
    next
      case (AdjustStock params)
      with Command e show ?thesis
        by (simp add: adjustStock_def Let_def addMovement_def split: option.splits)
    qed
  next
    case (UpdateTicket ticketId updates actionDescription)
    with e show ?thesis by simp
  next
    case (SetRole r)
    with e show ?thesis by simp
  qed
qed

lemma run_ledger_grows:
  "\<exists>new. movements (run evs s) = new @ movements s"
proof (induction evs rule: rev_induct)
  case Nil
  show ?case by (simp add: run_def)
next
  case (snoc e evs)
  then obtain new where new: "movements (run evs s) = new @ movements s"
    by auto
  from applyEvent_ledger_grows [of e "run evs s"]
  obtain more where "movements (applyEvent e (run evs s)) = more @ movements (run evs s)"
    by blast
  with new show ?case
    by (simp add: run_def)
qed

text \<open>
  Claim C9, as the code has it.  Take any store in which the line items of each purchase
  order name distinct parts, and any sequence of events in which no stock adjustment has
  a negative delta.  The ledger of the resulting store is the starting ledger with the
  new movements in front, and every part of the resulting store is the part of the
  starting store with those new movements replayed on it oldest first, where RESERVE adds
  the quantity to \<open>stockReserved\<close>, RELEASE subtracts it clamped at zero, ISSUE
  subtracts it from both quantities clamped at zero, RECEIVE adds it to
  \<open>stockOnHand\<close>, ADJUST adds it to \<open>stockOnHand\<close> clamped at zero (as
  \<open>adjustStock\<close> does; the clamp acts only on a part whose stock is already
  negative), and the purchase order notices change nothing.
\<close>

theorem ledger_replay_from_start:
  assumes "poItemsDistinct s" and "\<forall>e \<in> set evs. \<not> lowersStock (snd e)"
  shows "movements (run evs s) = newMovements s (run evs s) @ movements s
    \<and> parts (run evs s) = map (replayClamped (newMovements s (run evs s))) (parts s)"
proof -
  from run_replay [OF assms] obtain d where
    d: "map movementKey (movements (run evs s)) = d @ map movementKey (movements s)"
      "parts (run evs s) = map (foldr applyKey d) (parts s)"
    by blast
  from run_ledger_grows [of evs s] obtain new where new: "movements (run evs s) = new @ movements s"
    by blast
  have nm: "newMovements s (run evs s) = new"
    by (simp add: newMovements_def new)
  from d(1) have "map movementKey new = d"
    unfolding new by simp
  with d(2) new nm show ?thesis
    by (simp add: replayClamped_def)
qed

theorem ledger_replay_from_start_witness:
  "poItemsDistinct workshopStore
   \<and> map stockOf (parts (run quietDay workshopStore)) = [(23, 0)]
   \<and> map stockOf (map (replayClamped (newMovements workshopStore (run quietDay workshopStore)))
                     (parts workshopStore)) = [(23, 0)]"
proof -
  have h1: "poItemsDistinct workshopStore"
    by code_simp
  have h2: "\<forall>e \<in> set quietDay. \<not> lowersStock (snd e)"
    by code_simp
  have v: "map stockOf (parts (run quietDay workshopStore)) = [(23, 0)]"
    by code_simp
  from ledger_replay_from_start [OF h1 h2] h1 v show ?thesis
    by simp
qed

theorem ledger_replay_counterexample:
  "map stockOf (parts (run adjustTwice workshopStore)) = [(12, 0)]
   \<and> map movementKey (movements (run adjustTwice workshopStore)) =
        [(ADJUST, ''P-003'', 4), (ADJUST, ''P-003'', 2)]
   \<and> replaySigned 1 (movements (run adjustTwice workshopStore)) ''P-003'' (0, 0) = (6, 0)
   \<and> replaySigned 1 (movements (run adjustTwice workshopStore)) ''P-003'' (10, 0) = (16, 0)
   \<and> replaySigned (- 1) (movements (run adjustTwice workshopStore)) ''P-003'' (0, 0) = (- 6, 0)
   \<and> replaySigned (- 1) (movements (run adjustTwice workshopStore)) ''P-003'' (10, 0) = (4, 0)
   \<and> map stockOf (parts (run adjustTwice workshopStore))
        \<noteq> [replaySigned 1 (movements (run adjustTwice workshopStore)) ''P-003'' (0, 0)]
   \<and> map stockOf (parts (run adjustTwice workshopStore))
        \<noteq> [replaySigned 1 (movements (run adjustTwice workshopStore)) ''P-003'' (10, 0)]
   \<and> map stockOf (parts (run adjustTwice workshopStore))
        \<noteq> [replaySigned (- 1) (movements (run adjustTwice workshopStore)) ''P-003'' (0, 0)]
   \<and> map stockOf (parts (run adjustTwice workshopStore))
        \<noteq> [replaySigned (- 1) (movements (run adjustTwice workshopStore)) ''P-003'' (10, 0)]
   \<and> map stockOf (parts (run releaseTwice workshopStore)) = [(10, 0)]
   \<and> replaySigned 1 (movements (run releaseTwice workshopStore)) ''P-003'' (10, 0) = (10, - 2)"
  by code_simp

end
